theory Spec2Isabelle
  imports Complex_Main "HOL-Library.Sublist"
begin

section \<open>The \<open>generate\<close> routine of Chapter03/notebook.ipynb\<close>

text \<open>
  The notebook defines one function, \<open>generate\<close>. It loads a pretrained generator and
  a primer sequence, derives the time window the generator has to fill from the tempo
  and the primer's length, calls the generator once and writes a MIDI file and a plot.

  The window is computed in Python's \<open>float\<close>, an IEEE double. The window computation
  is therefore written once, over an arithmetic that is a parameter, and read in two
  arithmetics: \<open>python\<close>, where every operation rounds to the nearest double (ties to
  even, gradual underflow, overflow to infinity, NaN), and \<open>exact\<close>, the real numbers,
  for the statements that are made of exact arithmetic. \<open>generate\<close> itself runs in
  \<open>python\<close>. Python's \<open>int\<close> is \<open>int\<close>, \<open>str\<close> is \<open>string\<close>.
\<close>

subsection \<open>Errors\<close>

text \<open>
  The function raises Python's plain \<open>Exception\<close> with a message in two places. A
  division by zero raises \<open>ZeroDivisionError\<close>; converting an \<open>int\<close> beyond the
  doubles to \<open>float\<close>, and \<open>math.ceil\<close> of an infinity, raise \<open>OverflowError\<close>;
  \<open>math.ceil\<close> of NaN raises \<open>ValueError\<close>; a missing generator id raises \<open>KeyError\<close>,
  a class name with fewer than three dotted parts \<open>IndexError\<close>. \<open>Other\<close> stands for
  whatever else a library call may raise.
\<close>

datatype error =
    Exception string
  | ZeroDivisionError
  | OverflowError
  | ValueError
  | KeyError string
  | IndexError
  | Other string

subsection \<open>\<open>str\<close> of an integer\<close>

fun str_nat :: "nat \<Rightarrow> string" where
  "str_nat n =
     (if n < 10 then [''0123456789'' ! n]
      else str_nat (n div 10) @ [''0123456789'' ! (n mod 10)])"

declare str_nat.simps [simp del]

definition str_int :: "int \<Rightarrow> string" where
  "str_int i = (if i < 0 then ''-'' @ str_nat (nat (- i)) else str_nat (nat i))"

subsection \<open>Python's \<open>float\<close>\<close>

text \<open>
  A \<open>float\<close> is a finite double, carried as the real number it denotes, an infinity or
  NaN. The sign of a zero is not kept: \<open>generate\<close> never divides by a zero without
  raising, so the sign cannot reach a result other than as \<open>-0.0\<close> itself.
\<close>

datatype pyfloat = Finite real | PosInf | NegInf | NaN

definition pow2 :: "int \<Rightarrow> real" where
  "pow2 e = (if 0 \<le> e then 2 ^ nat e else 1 / 2 ^ nat (- e))"

text \<open>
  The greatest \<open>e\<close> in \<open>[lo, lo + 2\<^sup>k)\<close> with \<open>2\<^sup>e \<le> x\<close>, by bisection (\<open>lo\<close> itself
  when there is none).
\<close>

fun search_log2 :: "nat \<Rightarrow> real \<Rightarrow> int \<Rightarrow> int" where
  "search_log2 k x lo =
     (if k = 0 then lo
      else if pow2 (lo + 2 ^ (k - 1)) \<le> x then search_log2 (k - 1) x (lo + 2 ^ (k - 1))
      else search_log2 (k - 1) x lo)"

declare search_log2.simps [simp del]

text \<open>
  The binary exponent of \<open>x > 0\<close>: the greatest \<open>e\<close> with \<open>2\<^sup>e \<le> x\<close>, searched
  in \<open>[-64, 64)\<close> when \<open>x\<close> lies there and in \<open>[-2048, 2048)\<close> otherwise. Beyond
  the wide range the rounding below underflows to the grid of the subnormals or
  overflows, whatever the exponent found.
\<close>

definition floor_log2 :: "real \<Rightarrow> int" where
  "floor_log2 x =
     (if pow2 (- 64) \<le> x \<and> x < pow2 64 then search_log2 7 x (- 64)
      else search_log2 12 x (- 2048))"

definition round_half_even :: "real \<Rightarrow> int" where
  "round_half_even x =
     (if x - of_int \<lfloor>x\<rfloor> < 1 / 2 then \<lfloor>x\<rfloor>
      else if 1 / 2 < x - of_int \<lfloor>x\<rfloor> then \<lfloor>x\<rfloor> + 1
      else if even \<lfloor>x\<rfloor> then \<lfloor>x\<rfloor> else \<lfloor>x\<rfloor> + 1)"

text \<open>
  Rounding \<open>x > 0\<close> to 53 significant bits, ties to even, on a grid no finer than
  \<open>pow2 (- 1074)\<close>, the grid of the subnormal doubles.
\<close>

definition round_magnitude :: "real \<Rightarrow> real" where
  "round_magnitude x =
     of_int (round_half_even (x / pow2 (max (floor_log2 x - 52) (- 1074))))
       * pow2 (max (floor_log2 x - 52) (- 1074))"

text \<open>
  The double nearest to a real number; an infinity when the rounded magnitude reaches
  \<open>pow2 1024\<close>.
\<close>

definition round_double :: "real \<Rightarrow> pyfloat" where
  "round_double x =
     (if x = 0 then Finite 0
      else if 1024 \<le> floor_log2 (round_magnitude \<bar>x\<bar>)
      then (if 0 < x then PosInf else NegInf)
      else if 0 < x then Finite (round_magnitude \<bar>x\<bar>)
      else Finite (- round_magnitude \<bar>x\<bar>))"

definition float_is_zero :: "pyfloat \<Rightarrow> bool" where
  "float_is_zero a = (a = Finite 0)"

definition float_negative :: "pyfloat \<Rightarrow> bool" where
  "float_negative a = (case a of Finite x \<Rightarrow> x < 0 | NegInf \<Rightarrow> True | _ \<Rightarrow> False)"

definition float_positive :: "pyfloat \<Rightarrow> bool" where
  "float_positive a = (case a of Finite x \<Rightarrow> 0 < x | PosInf \<Rightarrow> True | _ \<Rightarrow> False)"

definition float_is_inf :: "pyfloat \<Rightarrow> bool" where
  "float_is_inf a = (a = PosInf \<or> a = NegInf)"

text \<open>
  The four operations on doubles. The divisor of \<open>float_div\<close> is not zero: Python tests
  that first and raises, which is part of the code that divides.
\<close>

definition float_div :: "pyfloat \<Rightarrow> pyfloat \<Rightarrow> pyfloat" where
  "float_div a b =
     (case (a, b) of
        (Finite x, Finite y) \<Rightarrow> round_double (x / y)
      | (Finite x, _) \<Rightarrow> if b = NaN then NaN else Finite 0
      | (_, Finite y) \<Rightarrow>
          if a = NaN then NaN
          else if float_negative a \<noteq> (y < 0) then NegInf else PosInf
      | _ \<Rightarrow> NaN)"

definition float_mul :: "pyfloat \<Rightarrow> pyfloat \<Rightarrow> pyfloat" where
  "float_mul a b =
     (case (a, b) of
        (Finite x, Finite y) \<Rightarrow> round_double (x * y)
      | _ \<Rightarrow>
          if a = NaN \<or> b = NaN \<or> float_is_zero a \<or> float_is_zero b then NaN
          else if float_negative a \<noteq> float_negative b then NegInf else PosInf)"

definition float_add :: "pyfloat \<Rightarrow> pyfloat \<Rightarrow> pyfloat" where
  "float_add a b =
     (case (a, b) of
        (Finite x, Finite y) \<Rightarrow> round_double (x + y)
      | (Finite x, _) \<Rightarrow> b
      | (_, Finite y) \<Rightarrow> a
      | _ \<Rightarrow> if a = b then a else NaN)"

definition float_neg :: "pyfloat \<Rightarrow> pyfloat" where
  "float_neg a =
     (case a of Finite x \<Rightarrow> Finite (- x) | PosInf \<Rightarrow> NegInf | NegInf \<Rightarrow> PosInf | NaN \<Rightarrow> NaN)"

definition float_sub :: "pyfloat \<Rightarrow> pyfloat \<Rightarrow> pyfloat" where
  "float_sub a b = float_add a (float_neg b)"

text \<open>\<open>math.ceil\<close>: what it raises, and the integer it returns otherwise.\<close>

definition ceil_error :: "pyfloat \<Rightarrow> error option" where
  "ceil_error a =
     (case a of Finite x \<Rightarrow> None | NaN \<Rightarrow> Some ValueError | _ \<Rightarrow> Some OverflowError)"

definition ceil_value :: "pyfloat \<Rightarrow> int" where
  "ceil_value a = (case a of Finite x \<Rightarrow> \<lceil>x\<rceil> | _ \<Rightarrow> 0)"

subsection \<open>The two arithmetics\<close>

text \<open>
  What the window computation uses of its numbers: a float literal, an \<open>int\<close> operand
  of a mixed operation (converted to \<open>float\<close>, which raises when the \<open>int\<close> is too
  large), the test for a zero divisor, the four operations, the comparison \<open>> 0\<close> and
  \<open>math.ceil\<close>.
\<close>

record 'f arithmetic =
  a_literal :: "real \<Rightarrow> 'f"
  a_int_too_large :: "int \<Rightarrow> bool"
  a_from_int :: "int \<Rightarrow> 'f"
  a_is_zero :: "'f \<Rightarrow> bool"
  a_div :: "'f \<Rightarrow> 'f \<Rightarrow> 'f"
  a_mul :: "'f \<Rightarrow> 'f \<Rightarrow> 'f"
  a_add :: "'f \<Rightarrow> 'f \<Rightarrow> 'f"
  a_sub :: "'f \<Rightarrow> 'f \<Rightarrow> 'f"
  a_positive :: "'f \<Rightarrow> bool"
  a_ceil_error :: "'f \<Rightarrow> error option"
  a_ceil :: "'f \<Rightarrow> int"

definition python :: "pyfloat arithmetic" where
  "python =
     \<lparr>a_literal = round_double,
      a_int_too_large = (\<lambda>n. float_is_inf (round_double (of_int n))),
      a_from_int = (\<lambda>n. round_double (of_int n)),
      a_is_zero = float_is_zero,
      a_div = float_div,
      a_mul = float_mul,
      a_add = float_add,
      a_sub = float_sub,
      a_positive = float_positive,
      a_ceil_error = ceil_error,
      a_ceil = ceil_value\<rparr>"

definition exact :: "real arithmetic" where
  "exact =
     \<lparr>a_literal = (\<lambda>x. x),
      a_int_too_large = (\<lambda>n. False),
      a_from_int = of_int,
      a_is_zero = (\<lambda>x. x = 0),
      a_div = (\<lambda>x y. x / y),
      a_mul = (\<lambda>x y. x * y),
      a_add = (\<lambda>x y. x + y),
      a_sub = (\<lambda>x y. x - y),
      a_positive = (\<lambda>x. 0 < x),
      a_ceil_error = (\<lambda>x. None),
      a_ceil = (\<lambda>x. \<lceil>x\<rceil>)\<rparr>"

subsection \<open>Tempo resolution\<close>

record tempo =
  tempo_time :: pyfloat
  tempo_qpm :: pyfloat

record seq_note =
  note_pitch :: int
  note_start_time :: pyfloat
  note_end_time :: pyfloat

record note_sequence =
  tempos :: "tempo list"
  total_time :: pyfloat
  sequence_notes :: "seq_note list"

text \<open>\<open>NoteSequence()\<close>: the empty sequence, with the protobuf defaults.\<close>

definition NoteSequence :: note_sequence where
  "NoteSequence = \<lparr>tempos = [], total_time = Finite 0, sequence_notes = []\<rparr>"

text \<open>
  \<^verbatim>\<open>
  if primer_sequence.tempos:
      if len(primer_sequence.tempos) > 1:
        raise Exception("No support for multiple tempos")
      qpm = primer_sequence.tempos[0].qpm
  \<close>
  The value of \<open>qpm\<close> after this block, or the exception.
\<close>

definition primer_qpm :: "note_sequence \<Rightarrow> pyfloat \<Rightarrow> error + pyfloat" where
  "primer_qpm primer_sequence qpm =
     (if tempos primer_sequence \<noteq> [] then
        if length (tempos primer_sequence) > 1
        then Inl (Exception ''No support for multiple tempos'')
        else Inr (tempo_qpm (hd (tempos primer_sequence)))
      else Inr qpm)"

subsection \<open>The time window\<close>

text \<open>
  Each local variable of the window computation is a function of the arithmetic and of
  the values it is computed from: the primer's \<open>total_time\<close>, the resolved \<open>qpm\<close>, the
  generator's \<open>steps_per_quarter\<close> and the requested \<open>total_length_steps\<close>. An \<open>int\<close>
  that meets a \<open>float\<close> in an operation is converted first, as Python does.
\<close>

definition seconds_per_step :: "'f arithmetic \<Rightarrow> 'f \<Rightarrow> int \<Rightarrow> 'f" where
  "seconds_per_step A qpm steps_per_quarter =
     a_div A (a_div A (a_literal A 60) qpm) (a_from_int A steps_per_quarter)"

definition primer_sequence_length_steps :: "'f arithmetic \<Rightarrow> 'f \<Rightarrow> 'f \<Rightarrow> int \<Rightarrow> int" where
  "primer_sequence_length_steps A primer_total_time qpm steps_per_quarter =
     a_ceil A (a_div A primer_total_time (seconds_per_step A qpm steps_per_quarter))"

definition primer_sequence_length_time :: "'f arithmetic \<Rightarrow> 'f \<Rightarrow> 'f \<Rightarrow> int \<Rightarrow> 'f" where
  "primer_sequence_length_time A primer_total_time qpm steps_per_quarter =
     a_mul A
       (a_from_int A (primer_sequence_length_steps A primer_total_time qpm steps_per_quarter))
       (seconds_per_step A qpm steps_per_quarter)"

definition primer_end_adjust :: "'f arithmetic \<Rightarrow> 'f \<Rightarrow> 'f \<Rightarrow> int \<Rightarrow> 'f" where
  "primer_end_adjust A primer_total_time qpm steps_per_quarter =
     (if a_positive A (primer_sequence_length_time A primer_total_time qpm steps_per_quarter)
      then a_literal A (1 / 100000) else a_from_int A 0)"

definition primer_start_time :: int where
  "primer_start_time = 0"

definition primer_end_time :: "'f arithmetic \<Rightarrow> 'f \<Rightarrow> 'f \<Rightarrow> int \<Rightarrow> 'f" where
  "primer_end_time A primer_total_time qpm steps_per_quarter =
     a_sub A
       (a_add A (a_from_int A primer_start_time)
          (primer_sequence_length_time A primer_total_time qpm steps_per_quarter))
       (primer_end_adjust A primer_total_time qpm steps_per_quarter)"

definition generation_length_steps :: "'f arithmetic \<Rightarrow> 'f \<Rightarrow> 'f \<Rightarrow> int \<Rightarrow> int \<Rightarrow> int" where
  "generation_length_steps A primer_total_time qpm steps_per_quarter total_length_steps =
     total_length_steps
       - primer_sequence_length_steps A primer_total_time qpm steps_per_quarter"

text \<open>The message of the exception raised when nothing is left to generate.\<close>

definition length_message :: "int \<Rightarrow> int \<Rightarrow> string" where
  "length_message total_length_steps primer_steps =
     ''Total length in steps too small ''
       @ ''('' @ str_int total_length_steps @ '')''
       @ '', needs to be at least one bar bigger than primer ''
       @ ''('' @ str_int primer_steps @ '')''"

definition generation_length_time :: "'f arithmetic \<Rightarrow> 'f \<Rightarrow> 'f \<Rightarrow> int \<Rightarrow> int \<Rightarrow> 'f" where
  "generation_length_time A primer_total_time qpm steps_per_quarter total_length_steps =
     a_mul A
       (a_from_int A (generation_length_steps A primer_total_time qpm steps_per_quarter
                        total_length_steps))
       (seconds_per_step A qpm steps_per_quarter)"

definition generation_start_time :: "'f arithmetic \<Rightarrow> 'f \<Rightarrow> 'f \<Rightarrow> int \<Rightarrow> 'f" where
  "generation_start_time A primer_total_time qpm steps_per_quarter =
     primer_end_time A primer_total_time qpm steps_per_quarter"

definition generation_end_time :: "'f arithmetic \<Rightarrow> 'f \<Rightarrow> 'f \<Rightarrow> int \<Rightarrow> int \<Rightarrow> 'f" where
  "generation_end_time A primer_total_time qpm steps_per_quarter total_length_steps =
     a_add A
       (a_add A (generation_start_time A primer_total_time qpm steps_per_quarter)
          (generation_length_time A primer_total_time qpm steps_per_quarter
             total_length_steps))
       (primer_end_adjust A primer_total_time qpm steps_per_quarter)"

text \<open>
  The computation up to \<open>math.ceil\<close>, with what it can raise, in the order of the
  source: \<open>60.0 / qpm\<close> divides by zero; the division by \<open>steps_per_quarter\<close> converts
  the \<open>int\<close> and then divides by zero; \<open>total_time / seconds_per_step\<close> divides by
  zero when the step has underflowed to zero; \<open>math.ceil\<close> refuses infinities and NaN.
  The multiplication by the step count that follows cannot raise, the count being the
  ceiling of a double.
\<close>

definition count_primer_steps :: "'f arithmetic \<Rightarrow> 'f \<Rightarrow> 'f \<Rightarrow> int \<Rightarrow> error + int" where
  "count_primer_steps A primer_total_time qpm steps_per_quarter =
     (if a_is_zero A qpm then Inl ZeroDivisionError
      else if a_int_too_large A steps_per_quarter then Inl OverflowError
      else if steps_per_quarter = 0 then Inl ZeroDivisionError
      else if a_is_zero A (seconds_per_step A qpm steps_per_quarter)
      then Inl ZeroDivisionError
      else case a_ceil_error A
                  (a_div A primer_total_time (seconds_per_step A qpm steps_per_quarter)) of
             Some e \<Rightarrow> Inl e
           | None \<Rightarrow>
               Inr (primer_sequence_length_steps A primer_total_time qpm steps_per_quarter))"

text \<open>
  The whole window computation: after the step count, a generation length of zero
  steps or fewer raises the \<open>Exception\<close> with \<open>length_message\<close>, and the multiplication
  of the generation length by the step converts the \<open>int\<close>. On success the result is
  the section handed to the generator, \<open>(generation_start_time, generation_end_time)\<close>.
\<close>

definition generation_section ::
  "'f arithmetic \<Rightarrow> 'f \<Rightarrow> 'f \<Rightarrow> int \<Rightarrow> int \<Rightarrow> error + 'f \<times> 'f" where
  "generation_section A primer_total_time qpm steps_per_quarter total_length_steps =
     (case count_primer_steps A primer_total_time qpm steps_per_quarter of
        Inl e \<Rightarrow> Inl e
      | Inr steps \<Rightarrow>
          if generation_length_steps A primer_total_time qpm steps_per_quarter
               total_length_steps \<le> 0
          then Inl (Exception (length_message total_length_steps steps))
          else if a_int_too_large A
                    (generation_length_steps A primer_total_time qpm steps_per_quarter
                       total_length_steps)
          then Inl OverflowError
          else Inr (generation_start_time A primer_total_time qpm steps_per_quarter,
                    generation_end_time A primer_total_time qpm steps_per_quarter
                      total_length_steps))"

subsection \<open>Strings and paths\<close>

text \<open>\<open>s.split(c)\<close> with an explicit separator: every occurrence splits, empty pieces stay.\<close>

fun str_split :: "char \<Rightarrow> string \<Rightarrow> string list" where
  "str_split c [] = [[]]"
| "str_split c (x # xs) =
     (if x = c then [] # str_split c xs
      else (case str_split c xs of [] \<Rightarrow> [[x]] | w # ws \<Rightarrow> (x # w) # ws))"

text \<open>\<open>os.path.join(a, b)\<close> for two components, as \<open>posixpath\<close> has it.\<close>

definition path_join :: "string \<Rightarrow> string \<Rightarrow> string" where
  "path_join a b =
     (if b \<noteq> [] \<and> hd b = CHR ''/'' then b
      else if a = [] \<or> last a = CHR ''/'' then a @ b
      else a @ ''/'' @ b)"

text \<open>\<open>str(generator.__class__).split(".")[2]\<close>\<close>

definition generator_name :: "string \<Rightarrow> error + string" where
  "generator_name class_str =
     (if length (str_split CHR ''.'' class_str) \<le> 2 then Inl IndexError
      else Inr (str_split CHR ''.'' class_str ! 2))"

text \<open>\<open>"%s_%s_%s.mid" % (generator_name, generator_id, date_and_time)\<close>, and \<open>.html\<close>\<close>

definition midi_filename :: "string \<Rightarrow> string \<Rightarrow> string \<Rightarrow> string" where
  "midi_filename name generator_id date_and_time =
     name @ ''_'' @ generator_id @ ''_'' @ date_and_time @ ''.mid''"

definition plot_filename :: "string \<Rightarrow> string \<Rightarrow> string \<Rightarrow> string" where
  "plot_filename name generator_id date_and_time =
     name @ ''_'' @ generator_id @ ''_'' @ date_and_time @ ''.html''"

subsection \<open>The collaborators\<close>

datatype model_bundle = Bundle string

datatype pretty_midi = PrettyMIDI "seq_note list"

record generate_section =
  start_time :: pyfloat
  end_time :: pyfloat

text \<open>
  \<open>GeneratorOptions\<close>: the four entries of \<open>args\<close> that \<open>generate\<close> sets, and the
  list of sections.
\<close>

record generator_options =
  arg_temperature :: pyfloat
  arg_beam_size :: int
  arg_branch_factor :: int
  arg_steps_per_iteration :: int
  generate_sections :: "generate_section list"

text \<open>
  A generator object: the text of \<open>str(generator.__class__)\<close>, the attribute
  \<open>steps_per_quarter\<close> when it has one, and what its methods \<open>initialize()\<close> and
  \<open>generate(primer_sequence, generator_options)\<close> return or raise. The generation is
  a function of the primer and the options.
\<close>

record generator =
  class_str :: string
  steps_per_quarter_attr :: "int option"
  initialize :: "error + unit"
  generate_sequence :: "note_sequence \<Rightarrow> generator_options \<Rightarrow> error + note_sequence"

text \<open>
  The library functions \<open>generate\<close> calls (\<open>magenta.music\<close>, \<open>time\<close>, \<open>os.path\<close>,
  \<open>visual_midi.Plotter\<close>), each by what it returns or raises. \<open>strftime\<close> is indexed
  by the number of the reading, the first being 0.
\<close>

record library =
  download_bundle :: "string \<Rightarrow> string \<Rightarrow> error + unit"
  read_bundle_file :: "string \<Rightarrow> error + model_bundle"
  midi_file_to_note_sequence :: "string \<Rightarrow> error + note_sequence"
  strftime :: "nat \<Rightarrow> string"
  note_sequence_to_midi_file :: "note_sequence \<Rightarrow> string \<Rightarrow> error + unit"
  note_sequence_to_pretty_midi :: "note_sequence \<Rightarrow> error + pretty_midi"
  plotter_show :: "pretty_midi \<Rightarrow> string \<Rightarrow> error + unit"
  plotter_save :: "pretty_midi \<Rightarrow> string \<Rightarrow> error + unit"
  abspath :: "string \<Rightarrow> string"

text \<open>
  \<open>sequence_generator.get_generator_map()\<close>: from a generator id to the constructor,
  which is applied to \<open>checkpoint=None\<close> and the bundle. Reading the map and
  constructing the \<open>Plotter()\<close> are taken not to raise.
\<close>

type_synonym generator_map = "string \<Rightarrow> (model_bundle \<Rightarrow> error + generator) option"

subsection \<open>Effects\<close>

text \<open>
  Every call that leaves the function is recorded, in order. The two lines printing
  the time intervals are recorded with their numbers rather than their text, since
  \<open>str\<close> of a float is outside the model.
\<close>

datatype event =
    DownloadBundle string string
  | ReadBundleFile string
  | Construct string model_bundle
  | Initialize
  | MidiFileToNoteSequence string
  | PrintPrimerTime int pyfloat
  | PrintGenerationTime pyfloat pyfloat
  | Generate note_sequence generator_options
  | NoteSequenceToMidiFile note_sequence string
  | NoteSequenceToPrettyMidi note_sequence
  | PlotterShow pretty_midi string
  | PlotterSave pretty_midi string
  | Print string

type_synonym 'a io = "(error + 'a) \<times> event list"

definition returns :: "'a \<Rightarrow> 'a io" where
  "returns x = (Inr x, [])"

definition raise :: "error \<Rightarrow> 'a io" where
  "raise e = (Inl e, [])"

definition computed :: "error + 'a \<Rightarrow> 'a io" where
  "computed r = (r, [])"

definition call :: "event \<Rightarrow> error + 'a \<Rightarrow> 'a io" where
  "call ev r = (r, [ev])"

text \<open>Sequencing: an exception ends the run, and the events so far stay.\<close>

definition and_then :: "'a io \<Rightarrow> ('a \<Rightarrow> 'b io) \<Rightarrow> 'b io" where
  "and_then m f =
     (case m of
        (Inl e, evs) \<Rightarrow> (Inl e, evs)
      | (Inr x, evs) \<Rightarrow> (case f x of (r, evs') \<Rightarrow> (r, evs @ evs')))"

definition generation_calls :: "event list \<Rightarrow> event list" where
  "generation_calls evs = filter (\<lambda>ev. case ev of Generate _ _ \<Rightarrow> True | _ \<Rightarrow> False) evs"

subsection \<open>\<open>generate\<close>\<close>

text \<open>Download and read the bundle, construct the generator and initialize it.\<close>

definition load_generator :: "library \<Rightarrow> string \<Rightarrow> generator_map \<Rightarrow> string \<Rightarrow> generator io" where
  "load_generator lib bundle_name sequence_generator generator_id =
     and_then (call (DownloadBundle bundle_name ''bundles'')
                 (download_bundle lib bundle_name ''bundles'')) (\<lambda>_.
     and_then (call (ReadBundleFile (path_join ''bundles'' bundle_name))
                 (read_bundle_file lib (path_join ''bundles'' bundle_name))) (\<lambda>bundle.
     case sequence_generator generator_id of
       None \<Rightarrow> raise (KeyError generator_id)
     | Some constructor \<Rightarrow>
         and_then (call (Construct generator_id bundle) (constructor bundle)) (\<lambda>generator.
         and_then (call Initialize (initialize generator)) (\<lambda>_.
         returns generator))))"

text \<open>
  \<open>if primer_filename:\<close> is false for \<open>None\<close> and for the empty string; then the
  primer is the empty sequence.
\<close>

definition load_primer :: "library \<Rightarrow> string option \<Rightarrow> note_sequence io" where
  "load_primer lib primer_filename =
     (case primer_filename of
        None \<Rightarrow> returns NoteSequence
      | Some name \<Rightarrow>
          if name \<noteq> [] then
            call (MidiFileToNoteSequence (path_join ''primers'' name))
              (midi_file_to_note_sequence lib (path_join ''primers'' name))
          else returns NoteSequence)"

text \<open>\<open>getattr(generator, "steps_per_quarter", 4)\<close>\<close>

definition steps_per_quarter_of :: "generator \<Rightarrow> int" where
  "steps_per_quarter_of generator =
     (case steps_per_quarter_attr generator of None \<Rightarrow> 4 | Some n \<Rightarrow> n)"

definition make_options ::
  "pyfloat \<Rightarrow> int \<Rightarrow> int \<Rightarrow> int \<Rightarrow> pyfloat \<times> pyfloat \<Rightarrow> generator_options" where
  "make_options temperature beam_size branch_factor steps_per_iteration section =
     \<lparr>arg_temperature = temperature,
      arg_beam_size = beam_size,
      arg_branch_factor = branch_factor,
      arg_steps_per_iteration = steps_per_iteration,
      generate_sections = [\<lparr>start_time = fst section, end_time = snd section\<rparr>]\<rparr>"

text \<open>Write the MIDI file, then the plot; each takes its own reading of the clock.\<close>

definition write_midi :: "library \<Rightarrow> generator \<Rightarrow> string \<Rightarrow> note_sequence \<Rightarrow> unit io" where
  "write_midi lib generator generator_id sequence =
     and_then (computed (generator_name (class_str generator))) (\<lambda>name.
     and_then (call (NoteSequenceToMidiFile sequence
                       (path_join ''output'' (midi_filename name generator_id (strftime lib 0))))
                 (note_sequence_to_midi_file lib sequence
                       (path_join ''output'' (midi_filename name generator_id (strftime lib 0))))) (\<lambda>_.
     call (Print (''Generated midi file: ''
                    @ abspath lib (path_join ''output''
                        (midi_filename name generator_id (strftime lib 0)))))
       (Inr ())))"

definition write_plot :: "library \<Rightarrow> generator \<Rightarrow> string \<Rightarrow> bool \<Rightarrow> note_sequence \<Rightarrow> unit io" where
  "write_plot lib generator generator_id show_plot sequence =
     and_then (computed (generator_name (class_str generator))) (\<lambda>name.
     and_then (call (NoteSequenceToPrettyMidi sequence)
                 (note_sequence_to_pretty_midi lib sequence)) (\<lambda>pm.
     and_then (if show_plot
               then call (PlotterShow pm
                            (path_join ''output'' (plot_filename name generator_id (strftime lib 1))))
                      (plotter_show lib pm
                            (path_join ''output'' (plot_filename name generator_id (strftime lib 1))))
               else call (PlotterSave pm
                            (path_join ''output'' (plot_filename name generator_id (strftime lib 1))))
                      (plotter_save lib pm
                            (path_join ''output'' (plot_filename name generator_id (strftime lib 1))))) (\<lambda>_.
     call (Print (''Generated plot file: ''
                    @ abspath lib (path_join ''output''
                        (plot_filename name generator_id (strftime lib 1)))))
       (Inr ()))))"

text \<open>
  The part of \<open>generate\<close> from the tempo onwards, given the generator and the primer:
  resolve the tempo, compute the window in doubles, print it, call the generator with the one
  section, write the two files and return the sequence.
\<close>

definition generate_with ::
  "library \<Rightarrow> generator \<Rightarrow> note_sequence \<Rightarrow> string \<Rightarrow> pyfloat \<Rightarrow> int \<Rightarrow> pyfloat \<Rightarrow> int
     \<Rightarrow> int \<Rightarrow> int \<Rightarrow> bool \<Rightarrow> note_sequence io" where
  "generate_with lib generator primer_sequence generator_id qpm total_length_steps
       temperature beam_size branch_factor steps_per_iteration show_plot =
     and_then (computed (primer_qpm primer_sequence qpm)) (\<lambda>qpm.
     and_then (computed (generation_section python (total_time primer_sequence) qpm
                           (steps_per_quarter_of generator) total_length_steps)) (\<lambda>section.
     and_then (call (PrintPrimerTime primer_start_time
                       (primer_end_time python (total_time primer_sequence) qpm
                          (steps_per_quarter_of generator))) (Inr ())) (\<lambda>_.
     and_then (call (PrintGenerationTime (fst section) (snd section)) (Inr ())) (\<lambda>_.
     and_then (call (Generate primer_sequence
                       (make_options temperature beam_size branch_factor
                          steps_per_iteration section))
                 (generate_sequence generator primer_sequence
                       (make_options temperature beam_size branch_factor
                          steps_per_iteration section))) (\<lambda>sequence.
     and_then (write_midi lib generator generator_id sequence) (\<lambda>_.
     and_then (write_plot lib generator generator_id show_plot sequence) (\<lambda>_.
     returns sequence)))))))"

definition generate ::
  "library \<Rightarrow> string \<Rightarrow> generator_map \<Rightarrow> string \<Rightarrow> string option \<Rightarrow> pyfloat \<Rightarrow> int
     \<Rightarrow> pyfloat \<Rightarrow> int \<Rightarrow> int \<Rightarrow> int \<Rightarrow> bool \<Rightarrow> note_sequence io" where
  "generate lib bundle_name sequence_generator generator_id primer_filename qpm
       total_length_steps temperature beam_size branch_factor steps_per_iteration show_plot =
     and_then (load_generator lib bundle_name sequence_generator generator_id) (\<lambda>generator.
     and_then (load_primer lib primer_filename) (\<lambda>primer_sequence.
     generate_with lib generator primer_sequence generator_id qpm total_length_steps
       temperature beam_size branch_factor steps_per_iteration show_plot))"

subsection \<open>Concrete runs\<close>

text \<open>
  The first call of the notebook, \<open>generate("basic_rnn.mag", melody_rnn_sequence_generator,
  "basic_rnn", primer_filename="Fur_Elisa_Beethoveen_Monophonic.mid", ...)\<close>, with
  collaborators that succeed and a generator with four steps per quarter. The primer
  file holds a primer of 1.5 seconds at 120 qpm in \<open>example_library\<close>, and one of 3.75
  seconds at 52 qpm, thirteen steps on the grid, in \<open>library_with slow_primer\<close>.
\<close>

definition example_primer :: note_sequence where
  "example_primer =
     \<lparr>tempos = [\<lparr>tempo_time = Finite 0, tempo_qpm = Finite 120\<rparr>],
      total_time = Finite (3 / 2),
      sequence_notes =
        [\<lparr>note_pitch = 76, note_start_time = Finite 0, note_end_time = Finite (3 / 2)\<rparr>]\<rparr>"

definition slow_primer :: note_sequence where
  "slow_primer =
     \<lparr>tempos = [\<lparr>tempo_time = Finite 0, tempo_qpm = Finite 52\<rparr>],
      total_time = Finite (15 / 4),
      sequence_notes =
        [\<lparr>note_pitch = 76, note_start_time = Finite 0, note_end_time = Finite (15 / 4)\<rparr>]\<rparr>"

definition example_sequence :: note_sequence where
  "example_sequence =
     \<lparr>tempos = [\<lparr>tempo_time = Finite 0, tempo_qpm = Finite 120\<rparr>],
      total_time = Finite 4,
      sequence_notes =
        [\<lparr>note_pitch = 76, note_start_time = Finite 0, note_end_time = Finite (3 / 2)\<rparr>,
         \<lparr>note_pitch = 72, note_start_time = Finite (3 / 2), note_end_time = Finite 4\<rparr>]\<rparr>"

definition example_generator :: generator where
  "example_generator =
     \<lparr>class_str = ''<class 'magenta.models.melody_rnn.melody_rnn_sequence_generator.MelodyRnnSequenceGenerator'>'',
      steps_per_quarter_attr = Some 4,
      initialize = Inr (),
      generate_sequence = (\<lambda>primer_sequence generator_options. Inr example_sequence)\<rparr>"

definition library_with :: "note_sequence \<Rightarrow> library" where
  "library_with primer =
     \<lparr>download_bundle = (\<lambda>bundle_name target_dir. Inr ()),
      read_bundle_file = (\<lambda>path. Inr (Bundle path)),
      midi_file_to_note_sequence = (\<lambda>path. Inr primer),
      strftime = (\<lambda>n. ''2019-09-11_124619''),
      note_sequence_to_midi_file = (\<lambda>sequence path. Inr ()),
      note_sequence_to_pretty_midi = (\<lambda>sequence. Inr (PrettyMIDI (sequence_notes sequence))),
      plotter_show = (\<lambda>pm path. Inr ()),
      plotter_save = (\<lambda>pm path. Inr ()),
      abspath = (\<lambda>path. ''/home/alex/'' @ path)\<rparr>"

definition example_library :: library where
  "example_library = library_with example_primer"

definition example_generator_map :: generator_map where
  "example_generator_map =
     (\<lambda>generator_id. if generator_id = ''basic_rnn'' then Some (\<lambda>bundle. Inr example_generator) else None)"

section \<open>The two arithmetics\<close>

lemma exact_simps:
  "a_literal exact x = x"
  "a_int_too_large exact n = False"
  "a_from_int exact n = of_int n"
  "a_is_zero exact x = (x = 0)"
  "a_div exact x y = x / y"
  "a_mul exact x y = x * y"
  "a_add exact x y = x + y"
  "a_sub exact x y = x - y"
  "a_positive exact x = (0 < x)"
  "a_ceil_error exact x = None"
  "a_ceil exact x = \<lceil>x\<rceil>"
  by (simp_all add: exact_def)

lemma python_simps:
  "a_literal python = round_double"
  "a_int_too_large python = (\<lambda>n. float_is_inf (round_double (of_int n)))"
  "a_from_int python = (\<lambda>n. round_double (of_int n))"
  "a_is_zero python = float_is_zero"
  "a_div python = float_div"
  "a_mul python = float_mul"
  "a_add python = float_add"
  "a_sub python = float_sub"
  "a_positive python = float_positive"
  "a_ceil_error python = ceil_error"
  "a_ceil python = ceil_value"
  by (simp_all add: python_def)

lemmas rounding = round_double_def round_magnitude_def round_half_even_def pow2_def
  floor_log2_def search_log2.simps

lemmas float_ops = float_div_def float_mul_def float_add_def float_sub_def
  float_neg_def float_positive_def float_negative_def float_is_zero_def float_is_inf_def
  ceil_error_def ceil_value_def

lemma round_double_zero: "round_double 0 = Finite 0"
  by (simp add: round_double_def)

lemma round_double_sixty: "round_double 60 = Finite 60"
  by (simp add: rounding)

section \<open>The window in doubles, at concrete inputs\<close>

text \<open>
  The values of the window at the inputs used below, one local variable at a time:
  \<open>worked\<close> is 1.5 seconds at 120 qpm and 32 steps, \<open>empty\<close> no primer at 120 qpm and 16
  steps, \<open>slow\<close> 3.75 seconds at 52 qpm, \<open>short\<close> the double 1.829268292682927 at 41
  qpm, \<open>waltz\<close> 1.5 seconds at 90 qpm and 32 steps, always with four steps per quarter.
\<close>

lemma literal_adjust:
  "round_double (1 / 100000) = Finite (5902958103587057 / 590295810358705651712)"
  by (simp add: rounding)

lemma literal_primer_end:
  "round_double (149999 / 100000) = Finite (3377677202529735 / 2251799813685248)"
  by (simp add: rounding)

lemma step_worked:
  "seconds_per_step python (Finite 120) 4 = Finite (1 / 8)"
  by (simp add: seconds_per_step_def
      python_simps float_ops rounding)

lemma steps_worked:
  "primer_sequence_length_steps python (Finite (3 / 2)) (Finite 120) 4 = 12"
  by (simp add: primer_sequence_length_steps_def step_worked
      python_simps float_ops rounding)

lemma primer_time_worked:
  "primer_sequence_length_time python (Finite (3 / 2)) (Finite 120) 4
     = Finite (3 / 2)"
  by (simp add: primer_sequence_length_time_def step_worked steps_worked
      python_simps float_ops rounding)

lemma adjust_worked:
  "primer_end_adjust python (Finite (3 / 2)) (Finite 120) 4
     = Finite (5902958103587057 / 590295810358705651712)"
  by (simp add: primer_end_adjust_def primer_time_worked
      python_simps float_ops rounding)

lemma primer_end_worked:
  "primer_end_time python (Finite (3 / 2)) (Finite 120) 4
     = Finite (3377677202529735 / 2251799813685248)"
  by (simp add: primer_end_time_def primer_start_time_def primer_time_worked adjust_worked
      python_simps float_ops rounding)

lemma count_worked:
  "count_primer_steps python (Finite (3 / 2)) (Finite 120) 4 = Inr 12"
  by (simp add: count_primer_steps_def step_worked steps_worked
      python_simps float_ops rounding)

lemma generation_steps_worked:
  "generation_length_steps python (Finite (3 / 2)) (Finite 120) 4 32 = 20"
  by (simp add: generation_length_steps_def steps_worked
      python_simps float_ops rounding)

lemma generation_time_worked:
  "generation_length_time python (Finite (3 / 2)) (Finite 120) 4 32
     = Finite (5 / 2)"
  by (simp add: generation_length_time_def generation_steps_worked step_worked
      python_simps float_ops rounding)

lemma generation_start_worked:
  "generation_start_time python (Finite (3 / 2)) (Finite 120) 4
     = Finite (3377677202529735 / 2251799813685248)"
  by (simp add: generation_start_time_def primer_end_worked
      python_simps float_ops rounding)

lemma generation_end_worked:
  "generation_end_time python (Finite (3 / 2)) (Finite 120) 4 32
     = Finite 4"
  by (simp add: generation_end_time_def generation_start_worked generation_time_worked
      adjust_worked
      python_simps float_ops rounding)

lemma section_worked:
  "generation_section python (Finite (3 / 2)) (Finite 120) 4 32
     = Inr (Finite (3377677202529735 / 2251799813685248),
            Finite 4)"
  by (simp add: generation_section_def count_worked generation_steps_worked
      generation_start_worked generation_end_worked
      python_simps float_ops rounding)

lemma step_empty:
  "seconds_per_step python (Finite 120) 4 = Finite (1 / 8)"
  by (simp add: seconds_per_step_def
      python_simps float_ops rounding)

lemma steps_empty:
  "primer_sequence_length_steps python (Finite 0) (Finite 120) 4 = 0"
  by (simp add: primer_sequence_length_steps_def step_empty
      python_simps float_ops rounding)

lemma primer_time_empty:
  "primer_sequence_length_time python (Finite 0) (Finite 120) 4
     = Finite 0"
  by (simp add: primer_sequence_length_time_def step_empty steps_empty
      python_simps float_ops rounding)

lemma adjust_empty:
  "primer_end_adjust python (Finite 0) (Finite 120) 4
     = Finite 0"
  by (simp add: primer_end_adjust_def primer_time_empty
      python_simps float_ops rounding)

lemma primer_end_empty:
  "primer_end_time python (Finite 0) (Finite 120) 4
     = Finite 0"
  by (simp add: primer_end_time_def primer_start_time_def primer_time_empty adjust_empty
      python_simps float_ops rounding)

lemma count_empty:
  "count_primer_steps python (Finite 0) (Finite 120) 4 = Inr 0"
  by (simp add: count_primer_steps_def step_empty steps_empty
      python_simps float_ops rounding)

lemma generation_steps_empty:
  "generation_length_steps python (Finite 0) (Finite 120) 4 16 = 16"
  by (simp add: generation_length_steps_def steps_empty
      python_simps float_ops rounding)

lemma generation_time_empty:
  "generation_length_time python (Finite 0) (Finite 120) 4 16
     = Finite 2"
  by (simp add: generation_length_time_def generation_steps_empty step_empty
      python_simps float_ops rounding)

lemma generation_start_empty:
  "generation_start_time python (Finite 0) (Finite 120) 4
     = Finite 0"
  by (simp add: generation_start_time_def primer_end_empty
      python_simps float_ops rounding)

lemma generation_end_empty:
  "generation_end_time python (Finite 0) (Finite 120) 4 16
     = Finite 2"
  by (simp add: generation_end_time_def generation_start_empty generation_time_empty
      adjust_empty
      python_simps float_ops rounding)

lemma section_empty:
  "generation_section python (Finite 0) (Finite 120) 4 16
     = Inr (Finite 0,
            Finite 2)"
  by (simp add: generation_section_def count_empty generation_steps_empty
      generation_start_empty generation_end_empty
      python_simps float_ops rounding)

lemma step_slow:
  "seconds_per_step python (Finite 52) 4 = Finite (2598230554252209 / 9007199254740992)"
  by (simp add: seconds_per_step_def
      python_simps float_ops rounding)

lemma steps_slow:
  "primer_sequence_length_steps python (Finite (15 / 4)) (Finite 52) 4 = 14"
  by (simp add: primer_sequence_length_steps_def step_slow
      python_simps float_ops rounding)

lemma primer_time_slow:
  "primer_sequence_length_time python (Finite (15 / 4)) (Finite 52) 4
     = Finite (2273451734970683 / 562949953421312)"
  by (simp add: primer_sequence_length_time_def step_slow steps_slow
      python_simps float_ops rounding)

lemma adjust_slow:
  "primer_end_adjust python (Finite (15 / 4)) (Finite 52) 4
     = Finite (5902958103587057 / 590295810358705651712)"
  by (simp add: primer_end_adjust_def primer_time_slow
      python_simps float_ops rounding)

lemma primer_end_slow:
  "primer_end_time python (Finite (15 / 4)) (Finite 52) 4
     = Finite (2273446105471149 / 562949953421312)"
  by (simp add: primer_end_time_def primer_start_time_def primer_time_slow adjust_slow
      python_simps float_ops rounding)

lemma count_slow:
  "count_primer_steps python (Finite (15 / 4)) (Finite 52) 4 = Inr 14"
  by (simp add: count_primer_steps_def step_slow steps_slow
      python_simps float_ops rounding)

lemma step_short:
  "seconds_per_step python (Finite 41) 4 = Finite (3295316800514997 / 9007199254740992)"
  by (simp add: seconds_per_step_def
      python_simps float_ops rounding)

lemma steps_short:
  "primer_sequence_length_steps python (Finite (8238292001287493 / 4503599627370496)) (Finite 41) 4 = 5"
  by (simp add: primer_sequence_length_steps_def step_short
      python_simps float_ops rounding)

lemma primer_time_short:
  "primer_sequence_length_time python (Finite (8238292001287493 / 4503599627370496)) (Finite 41) 4
     = Finite (2059573000321873 / 1125899906842624)"
  by (simp add: primer_sequence_length_time_def step_short steps_short
      python_simps float_ops rounding)

lemma step_waltz:
  "seconds_per_step python (Finite 90) 4 = Finite (6004799503160661 / 36028797018963968)"
  by (simp add: seconds_per_step_def
      python_simps float_ops rounding)

lemma steps_waltz:
  "primer_sequence_length_steps python (Finite (3 / 2)) (Finite 90) 4 = 9"
  by (simp add: primer_sequence_length_steps_def step_waltz
      python_simps float_ops rounding)

lemma primer_time_waltz:
  "primer_sequence_length_time python (Finite (3 / 2)) (Finite 90) 4
     = Finite (3 / 2)"
  by (simp add: primer_sequence_length_time_def step_waltz steps_waltz
      python_simps float_ops rounding)

lemma adjust_waltz:
  "primer_end_adjust python (Finite (3 / 2)) (Finite 90) 4
     = Finite (5902958103587057 / 590295810358705651712)"
  by (simp add: primer_end_adjust_def primer_time_waltz
      python_simps float_ops rounding)

lemma primer_end_waltz:
  "primer_end_time python (Finite (3 / 2)) (Finite 90) 4
     = Finite (3377677202529735 / 2251799813685248)"
  by (simp add: primer_end_time_def primer_start_time_def primer_time_waltz adjust_waltz
      python_simps float_ops rounding)

lemma count_waltz:
  "count_primer_steps python (Finite (3 / 2)) (Finite 90) 4 = Inr 9"
  by (simp add: count_primer_steps_def step_waltz steps_waltz
      python_simps float_ops rounding)

lemma generation_steps_waltz:
  "generation_length_steps python (Finite (3 / 2)) (Finite 90) 4 32 = 23"
  by (simp add: generation_length_steps_def steps_waltz
      python_simps float_ops rounding)

lemma generation_time_waltz:
  "generation_length_time python (Finite (3 / 2)) (Finite 90) 4 32
     = Finite (4315949642896725 / 1125899906842624)"
  by (simp add: generation_length_time_def generation_steps_waltz step_waltz
      python_simps float_ops rounding)

lemma generation_start_waltz:
  "generation_start_time python (Finite (3 / 2)) (Finite 90) 4
     = Finite (3377677202529735 / 2251799813685248)"
  by (simp add: generation_start_time_def primer_end_waltz
      python_simps float_ops rounding)

lemma generation_end_waltz:
  "generation_end_time python (Finite (3 / 2)) (Finite 90) 4 32
     = Finite (1501199875790165 / 281474976710656)"
  by (simp add: generation_end_time_def generation_start_waltz generation_time_waltz
      adjust_waltz
      python_simps float_ops rounding)

text \<open>
  A tempo of \<open>2 ^ - 1020\<close> qpm, a positive double: \<open>60.0 / qpm\<close> overflows to
  infinity, and with no primer the primer's length in time is \<open>0 * inf\<close>, which is
  NaN.
\<close>

lemma step_overflow:
  assumes "qpm = Finite (1 / 2 ^ 1020)"
  shows "seconds_per_step python qpm 4 = PosInf"
  unfolding assms by (simp add: seconds_per_step_def python_simps float_ops rounding)

lemma steps_overflow:
  assumes "qpm = Finite (1 / 2 ^ 1020)"
  shows "primer_sequence_length_steps python (Finite 0) qpm 4 = 0"
  by (simp add: primer_sequence_length_steps_def step_overflow [OF assms] python_simps
      float_ops)

lemma primer_time_overflow:
  assumes "qpm = Finite (1 / 2 ^ 1020)"
  shows "primer_sequence_length_time python (Finite 0) qpm 4 = NaN"
  by (simp add: primer_sequence_length_time_def step_overflow [OF assms]
      steps_overflow [OF assms] python_simps float_ops round_double_zero)

lemma adjust_overflow:
  assumes "qpm = Finite (1 / 2 ^ 1020)"
  shows "primer_end_adjust python (Finite 0) qpm 4 = Finite 0"
  by (simp add: primer_end_adjust_def primer_time_overflow [OF assms] python_simps
      float_ops round_double_zero)

lemma primer_end_overflow:
  assumes "qpm = Finite (1 / 2 ^ 1020)"
  shows "primer_end_time python (Finite 0) qpm 4 = NaN"
  by (simp add: primer_end_time_def primer_start_time_def primer_time_overflow [OF assms]
      adjust_overflow [OF assms] python_simps float_ops round_double_zero)

lemma count_overflow:
  assumes "qpm = Finite (1 / 2 ^ 1020)"
  shows "count_primer_steps python (Finite 0) qpm 4 = Inr 0"
proof -
  have "\<not> float_is_zero qpm"
    unfolding assms by (simp add: float_is_zero_def)
  then show ?thesis
    by (simp add: count_primer_steps_def step_overflow [OF assms] steps_overflow [OF assms]
        python_simps float_ops rounding)
qed

lemma section_overflow:
  assumes "qpm = Finite (1 / 2 ^ 1020)"
  shows "generation_section python (Finite 0) qpm 4 16 = Inr (NaN, NaN)"
  by (simp add: generation_section_def count_overflow [OF assms] generation_length_steps_def
      steps_overflow [OF assms] generation_start_time_def primer_end_overflow [OF assms]
      generation_end_time_def generation_length_time_def step_overflow [OF assms]
      adjust_overflow [OF assms] python_simps float_ops rounding)

text \<open>
  At 52 qpm and four steps per quarter the step is not the exact quotient
  \<open>60 / 52 / 4\<close>, and a primer of 3.75 seconds, thirteen steps in exact arithmetic,
  is counted as fourteen.
\<close>

theorem step_duration_counterexample:
  "seconds_per_step python (Finite 52) 4 = Finite (2598230554252209 / 9007199254740992)
   \<and> (2598230554252209 / 9007199254740992 :: real) \<noteq> 60 / 52 / 4
   \<and> primer_sequence_length_steps python (Finite (15 / 4)) (Finite 52) 4 = 14
   \<and> \<lceil>(15 / 4) / (60 / 52 / 4 :: real)\<rceil> = 13"
  by (simp add: step_slow steps_slow)

text \<open>
  At 41 qpm a primer of 1.829268292682927 seconds is counted as five steps, which
  end before the primer does; at 52 qpm a primer of 3.75 seconds is counted as fourteen
  steps, which end a whole step after it, at the double of \<open>3.75 + step\<close>.
\<close>

theorem primer_window_counterexample:
  "primer_sequence_length_steps python (Finite (8238292001287493 / 4503599627370496)) (Finite 41) 4 = 5
   \<and> primer_sequence_length_time python (Finite (8238292001287493 / 4503599627370496)) (Finite 41) 4
       = Finite (2059573000321873 / 1125899906842624)
   \<and> (2059573000321873 / 1125899906842624 :: real) < 8238292001287493 / 4503599627370496
   \<and> primer_sequence_length_steps python (Finite (15 / 4)) (Finite 52) 4 = 14
   \<and> primer_sequence_length_time python (Finite (15 / 4)) (Finite 52) 4
       = float_add (Finite (15 / 4)) (seconds_per_step python (Finite 52) 4)"
  by (simp add: steps_short primer_time_short steps_slow primer_time_slow step_slow
      float_ops rounding)

text \<open>
  At 90 qpm, a primer of 1.5 seconds and 32 steps, the generation window is not the
  generation length plus the adjustment, neither as real numbers nor when the
  difference and the sum are themselves computed in doubles.
\<close>

theorem boundary_adjustment_counterexample:
  "generation_start_time python (Finite (3 / 2)) (Finite 90) 4 = Finite (3377677202529735 / 2251799813685248)
   \<and> generation_end_time python (Finite (3 / 2)) (Finite 90) 4 32 = Finite (1501199875790165 / 281474976710656)
   \<and> generation_length_time python (Finite (3 / 2)) (Finite 90) 4 32 = Finite (4315949642896725 / 1125899906842624)
   \<and> primer_end_adjust python (Finite (3 / 2)) (Finite 90) 4 = Finite (5902958103587057 / 590295810358705651712)
   \<and> (1501199875790165 / 281474976710656 :: real) - 3377677202529735 / 2251799813685248
       \<noteq> 4315949642896725 / 1125899906842624 + 5902958103587057 / 590295810358705651712
   \<and> float_sub (generation_end_time python (Finite (3 / 2)) (Finite 90) 4 32)
         (generation_start_time python (Finite (3 / 2)) (Finite 90) 4)
       \<noteq> float_add (generation_length_time python (Finite (3 / 2)) (Finite 90) 4 32)
           (primer_end_adjust python (Finite (3 / 2)) (Finite 90) 4)"
  by (simp add: generation_start_waltz generation_end_waltz generation_time_waltz
      adjust_waltz float_ops rounding)

text \<open>
  So with no primer and that tempo the primer does not end at 0: the section handed
  to the generator is \<open>(NaN, NaN)\<close>.
\<close>

theorem empty_primer_counterexample:
  "0 < (1 / 2 ^ 1020 :: real)
   \<and> primer_end_time python (Finite 0) (Finite (1 / 2 ^ 1020)) 4 = NaN
   \<and> primer_end_time python (Finite 0) (Finite (1 / 2 ^ 1020)) 4 \<noteq> Finite 0
   \<and> generation_section python (Finite 0) (Finite (1 / 2 ^ 1020)) 4 16 = Inr (NaN, NaN)"
proof -
  have "primer_end_time python (Finite 0) (Finite (1 / 2 ^ 1020)) 4 = NaN"
    by (rule primer_end_overflow [OF refl])
  moreover have "generation_section python (Finite 0) (Finite (1 / 2 ^ 1020)) 4 16
                   = Inr (NaN, NaN)"
    by (rule section_overflow [OF refl])
  moreover have "0 < (1 / 2 ^ 1020 :: real)" by simp
  ultimately show ?thesis by (simp only: pyfloat.distinct simp_thms)
qed

section \<open>The window in exact arithmetic\<close>

lemma seconds_per_step_pos:
  "0 < qpm \<Longrightarrow> 0 < steps_per_quarter \<Longrightarrow> 0 < seconds_per_step exact qpm steps_per_quarter"
  by (simp add: seconds_per_step_def exact_simps)

lemma seconds_per_step_exact:
  "seconds_per_step exact qpm steps_per_quarter = 60 / qpm / of_int steps_per_quarter"
  by (simp add: seconds_per_step_def exact_simps)

lemma primer_steps_exact:
  "primer_sequence_length_steps exact primer_total_time qpm steps_per_quarter
     = \<lceil>primer_total_time / seconds_per_step exact qpm steps_per_quarter\<rceil>"
  by (simp add: primer_sequence_length_steps_def exact_simps)

lemma primer_length_time_exact:
  "primer_sequence_length_time exact primer_total_time qpm steps_per_quarter
     = of_int (primer_sequence_length_steps exact primer_total_time qpm steps_per_quarter)
         * seconds_per_step exact qpm steps_per_quarter"
  by (simp add: primer_sequence_length_time_def exact_simps)

lemma count_primer_steps_exact:
  assumes "0 < qpm" and "0 < steps_per_quarter"
  shows "count_primer_steps exact primer_total_time qpm steps_per_quarter
           = Inr (primer_sequence_length_steps exact primer_total_time qpm steps_per_quarter)"
  using assms seconds_per_step_pos [OF assms]
  by (simp add: count_primer_steps_def exact_simps)

lemma generation_section_exact:
  assumes "0 < qpm" and "0 < steps_per_quarter"
  shows "generation_section exact primer_total_time qpm steps_per_quarter total_length_steps
           = (if generation_length_steps exact primer_total_time qpm steps_per_quarter
                   total_length_steps \<le> 0
              then Inl (Exception (length_message total_length_steps
                     (primer_sequence_length_steps exact primer_total_time qpm
                        steps_per_quarter)))
              else Inr (generation_start_time exact primer_total_time qpm steps_per_quarter,
                        generation_end_time exact primer_total_time qpm steps_per_quarter
                          total_length_steps))"
  by (simp add: generation_section_def count_primer_steps_exact [OF assms] exact_simps)

lemma primer_length_time_lower:
  assumes "0 < qpm" and "0 < steps_per_quarter"
  shows "primer_total_time
           \<le> primer_sequence_length_time exact primer_total_time qpm steps_per_quarter"
  unfolding primer_length_time_exact primer_steps_exact
  using assms by (intro ceiling_divide_upper seconds_per_step_pos)

lemma primer_length_time_upper:
  assumes "0 < qpm" and "0 < steps_per_quarter"
  shows "primer_sequence_length_time exact primer_total_time qpm steps_per_quarter
           < primer_total_time + seconds_per_step exact qpm steps_per_quarter"
proof -
  have "0 < seconds_per_step exact qpm steps_per_quarter"
    using assms by (rule seconds_per_step_pos)
  from ceiling_divide_lower [OF this, of primer_total_time]
  show ?thesis
    by (simp add: primer_length_time_exact primer_steps_exact algebra_simps)
qed

lemma zero_less_mult_pos2_iff: "0 < (b::real) \<Longrightarrow> 0 < a * b \<longleftrightarrow> 0 < a"
  by (simp add: zero_less_mult_iff)

lemma zero_less_divide_pos_iff: "0 < (b::real) \<Longrightarrow> 0 < a / b \<longleftrightarrow> 0 < a"
  by (simp add: zero_less_divide_iff)

lemma primer_length_time_pos_iff:
  assumes "0 < qpm" and "0 < steps_per_quarter"
  shows "0 < primer_sequence_length_time exact primer_total_time qpm steps_per_quarter
           \<longleftrightarrow> 0 < primer_total_time"
proof -
  have s: "0 < seconds_per_step exact qpm steps_per_quarter"
    using assms by (rule seconds_per_step_pos)
  let ?x = "primer_total_time / seconds_per_step exact qpm steps_per_quarter"
  have "0 < real_of_int \<lceil>?x\<rceil> * seconds_per_step exact qpm steps_per_quarter
          \<longleftrightarrow> 0 < real_of_int \<lceil>?x\<rceil>"
    using s by (rule zero_less_mult_pos2_iff)
  also have "\<dots> \<longleftrightarrow> 0 < ?x" by simp
  also have "\<dots> \<longleftrightarrow> 0 < primer_total_time"
    using s by (rule zero_less_divide_pos_iff)
  finally show ?thesis
    by (simp only: primer_length_time_exact primer_steps_exact)
qed

lemma generation_end_time_total:
  "generation_end_time exact primer_total_time qpm steps_per_quarter total_length_steps
     = of_int total_length_steps * seconds_per_step exact qpm steps_per_quarter"
  by (simp add: generation_end_time_def generation_start_time_def primer_end_time_def
      generation_length_time_def generation_length_steps_def primer_sequence_length_time_def
      primer_start_time_def exact_simps algebra_simps)

lemma primer_end_adjust_nonneg:
  "0 \<le> primer_end_adjust exact primer_total_time qpm steps_per_quarter"
  by (simp add: primer_end_adjust_def exact_simps)

text \<open>
  \<^bold>\<open>C1.\<close> For every tempo \<open>qpm > 0\<close> and every \<open>steps_per_quarter > 0\<close>, in exact
  arithmetic the step lasts \<open>60 / qpm / steps_per_quarter\<close> seconds, the computation of
  the step count raises nothing, and for every primer length \<open>primer_total_time \<ge> 0\<close>
  the primer is \<open>\<lceil>primer_total_time / step\<rceil>\<close> steps long. In doubles the step is that
  quotient with each of its two divisions rounded, and the step count is the ceiling of
  the rounded quotient of the primer's length by the step.
\<close>

theorem step_duration_and_primer_steps:
  assumes "0 < qpm" and "0 < steps_per_quarter"
  shows "seconds_per_step exact qpm steps_per_quarter = 60 / qpm / of_int steps_per_quarter
         \<and> (\<forall>primer_total_time\<ge>0.
               primer_sequence_length_steps exact primer_total_time qpm steps_per_quarter
                 = \<lceil>primer_total_time / (60 / qpm / of_int steps_per_quarter)\<rceil>
               \<and> count_primer_steps exact primer_total_time qpm steps_per_quarter
                   = Inr \<lceil>primer_total_time / (60 / qpm / of_int steps_per_quarter)\<rceil>
               \<and> (\<forall>total_length_steps.
                     generation_section exact primer_total_time qpm steps_per_quarter
                       total_length_steps \<noteq> Inl ZeroDivisionError))
         \<and> seconds_per_step python float_qpm steps_per_quarter
             = float_div (float_div (Finite 60) float_qpm)
                 (round_double (of_int steps_per_quarter))
         \<and> primer_sequence_length_steps python float_total_time float_qpm steps_per_quarter
             = ceil_value (float_div float_total_time
                 (seconds_per_step python float_qpm steps_per_quarter))"
  by (simp add: seconds_per_step_exact primer_steps_exact count_primer_steps_exact [OF assms]
      generation_section_exact [OF assms])
    (simp add: seconds_per_step_def primer_sequence_length_steps_def python_simps
      round_double_sixty)

theorem step_duration_and_primer_steps_witness:
  "seconds_per_step exact 82 4 = 15 / 82
   \<and> primer_sequence_length_steps exact (8 / 5) 82 4 = 9
   \<and> count_primer_steps exact (8 / 5) 82 4 = Inr 9"
  using step_duration_and_primer_steps [of 82 4] by simp

text \<open>
  \<^bold>\<open>C10.\<close> In exact arithmetic, for a primer of length at least 0 and a positive step, the
  primer rounded up to whole steps covers the primer and overshoots it by less than one
  step.
\<close>

theorem primer_window_covers_primer:
  assumes "0 \<le> primer_total_time" and "0 < qpm" and "0 < steps_per_quarter"
  shows "primer_total_time
           \<le> of_int (primer_sequence_length_steps exact primer_total_time qpm
                        steps_per_quarter)
                * seconds_per_step exact qpm steps_per_quarter
         \<and> of_int (primer_sequence_length_steps exact primer_total_time qpm
                      steps_per_quarter)
                * seconds_per_step exact qpm steps_per_quarter
             < primer_total_time + seconds_per_step exact qpm steps_per_quarter"
  using primer_length_time_lower [OF assms(2,3), of primer_total_time]
    primer_length_time_upper [OF assms(2,3), of primer_total_time]
  by (simp add: primer_length_time_exact)

theorem primer_window_covers_primer_witness:
  "(8 / 5 :: real)
     \<le> of_int (primer_sequence_length_steps exact (8 / 5) 120 4) * seconds_per_step exact 120 4
   \<and> of_int (primer_sequence_length_steps exact (8 / 5) 120 4) * seconds_per_step exact 120 4
       < 8 / 5 + seconds_per_step exact 120 4"
  using primer_window_covers_primer [of "8 / 5" 120 4] by simp

text \<open>
  \<^bold>\<open>C2.\<close> In exact arithmetic, with a positive tempo and positive steps per quarter: a
  primer of positive length has a positive rounded length and the adjustment is
  \<open>1e-5\<close>; otherwise the adjustment is 0. The primer starts at 0 and ends at its rounded
  length minus the adjustment; the generation starts where the primer ends and ends
  after the generation length plus the adjustment, so the window is the generation
  length plus the adjustment long. In doubles the same assignments are made, each
  operation rounded: the adjustment is the double \<open>1e-5\<close> when the primer's rounded
  length is positive and 0 otherwise.
\<close>

theorem boundary_adjustment:
  assumes "0 < qpm" and "0 < steps_per_quarter"
  shows "(0 < primer_total_time
            \<longrightarrow> 0 < primer_sequence_length_time exact primer_total_time qpm steps_per_quarter
                \<and> primer_end_adjust exact primer_total_time qpm steps_per_quarter
                    = 1 / 100000)
         \<and> (\<not> 0 < primer_total_time
            \<longrightarrow> primer_end_adjust exact primer_total_time qpm steps_per_quarter = 0)
         \<and> primer_start_time = 0
         \<and> primer_end_time exact primer_total_time qpm steps_per_quarter
             = primer_sequence_length_time exact primer_total_time qpm steps_per_quarter
                 - primer_end_adjust exact primer_total_time qpm steps_per_quarter
         \<and> generation_start_time exact primer_total_time qpm steps_per_quarter
             = primer_end_time exact primer_total_time qpm steps_per_quarter
         \<and> generation_end_time exact primer_total_time qpm steps_per_quarter
               total_length_steps
             = generation_start_time exact primer_total_time qpm steps_per_quarter
                 + generation_length_time exact primer_total_time qpm steps_per_quarter
                     total_length_steps
                 + primer_end_adjust exact primer_total_time qpm steps_per_quarter
         \<and> generation_end_time exact primer_total_time qpm steps_per_quarter
               total_length_steps
               - generation_start_time exact primer_total_time qpm steps_per_quarter
             = generation_length_time exact primer_total_time qpm steps_per_quarter
                 total_length_steps
                 + primer_end_adjust exact primer_total_time qpm steps_per_quarter
         \<and> primer_end_adjust python float_total_time float_qpm steps_per_quarter
             = (if float_positive (primer_sequence_length_time python float_total_time
                                     float_qpm steps_per_quarter)
                then round_double (1 / 100000) else Finite 0)
         \<and> primer_end_time python float_total_time float_qpm steps_per_quarter
             = float_sub
                 (float_add (Finite 0)
                    (primer_sequence_length_time python float_total_time float_qpm
                       steps_per_quarter))
                 (primer_end_adjust python float_total_time float_qpm steps_per_quarter)
         \<and> generation_start_time python float_total_time float_qpm steps_per_quarter
             = primer_end_time python float_total_time float_qpm steps_per_quarter
         \<and> generation_end_time python float_total_time float_qpm steps_per_quarter
               total_length_steps
             = float_add
                 (float_add
                    (generation_start_time python float_total_time float_qpm
                       steps_per_quarter)
                    (generation_length_time python float_total_time float_qpm
                       steps_per_quarter total_length_steps))
                 (primer_end_adjust python float_total_time float_qpm steps_per_quarter)"
  using primer_length_time_pos_iff [OF assms, of primer_total_time]
  by (simp add: primer_end_adjust_def primer_start_time_def primer_end_time_def
      generation_start_time_def generation_end_time_def exact_simps)
    (simp add: python_simps round_double_zero)

theorem boundary_adjustment_witness:
  "primer_end_adjust exact (3 / 2) 120 4 = 1 / 100000
   \<and> primer_end_time exact (3 / 2) 120 4
       = primer_sequence_length_time exact (3 / 2) 120 4 - 1 / 100000
   \<and> generation_end_time exact (3 / 2) 120 4 32 - generation_start_time exact (3 / 2) 120 4
       = generation_length_time exact (3 / 2) 120 4 32 + 1 / 100000
   \<and> primer_end_adjust exact 0 120 4 = 0"
  using boundary_adjustment [of 120 4 "3 / 2" 32] boundary_adjustment [of 120 4 0 32]
  by simp

text \<open>
  \<^bold>\<open>C4.\<close> For a valid input (positive tempo and steps per quarter, a primer length of at
  least 0, more total steps than primer steps), in exact arithmetic the adjustment
  cancels: the generation ends at exactly \<open>total_length_steps\<close> steps, and that is the
  end of the section computed for the generator.
\<close>

theorem generation_ends_on_step_boundary:
  assumes "0 < qpm" and "0 < steps_per_quarter" and "0 \<le> primer_total_time"
    and "primer_sequence_length_steps exact primer_total_time qpm steps_per_quarter
           < total_length_steps"
  shows "generation_end_time exact primer_total_time qpm steps_per_quarter total_length_steps
           = of_int total_length_steps * seconds_per_step exact qpm steps_per_quarter
         \<and> generation_section exact primer_total_time qpm steps_per_quarter
               total_length_steps
             = Inr (primer_end_time exact primer_total_time qpm steps_per_quarter,
                    of_int total_length_steps * seconds_per_step exact qpm steps_per_quarter)"
  using assms
  by (simp add: generation_end_time_total generation_section_exact generation_length_steps_def
      generation_start_time_def)

theorem generation_ends_on_step_boundary_witness:
  "generation_end_time exact (8 / 5) 120 4 32 = 32 * seconds_per_step exact 120 4
   \<and> generation_section exact (8 / 5) 120 4 32
       = Inr (primer_end_time exact (8 / 5) 120 4, 32 * seconds_per_step exact 120 4)"
proof -
  have "primer_sequence_length_steps exact (8 / 5) 120 4 < 32"
    by (simp add: primer_steps_exact seconds_per_step_exact)
  from generation_ends_on_step_boundary [OF _ _ _ this] show ?thesis by simp
qed

text \<open>
  \<^bold>\<open>C9.\<close> For an input that passes the length check, with positive tempo and steps per
  quarter, in exact arithmetic the generation window is not empty: it is at least one
  step long, a step is positive, and the section computed for the generator starts
  before it ends.
\<close>

theorem generation_window_nonempty:
  assumes "0 < qpm" and "0 < steps_per_quarter"
    and "primer_sequence_length_steps exact primer_total_time qpm steps_per_quarter
           < total_length_steps"
  shows "generation_start_time exact primer_total_time qpm steps_per_quarter
           < generation_end_time exact primer_total_time qpm steps_per_quarter
               total_length_steps
         \<and> 0 < seconds_per_step exact qpm steps_per_quarter
         \<and> seconds_per_step exact qpm steps_per_quarter
             \<le> generation_length_time exact primer_total_time qpm steps_per_quarter
                  total_length_steps
                + primer_end_adjust exact primer_total_time qpm steps_per_quarter
         \<and> (\<exists>section. generation_section exact primer_total_time qpm steps_per_quarter
                         total_length_steps = Inr section
                       \<and> fst section < snd section)"
proof -
  let ?s = "seconds_per_step exact qpm steps_per_quarter"
  let ?g = "generation_length_steps exact primer_total_time qpm steps_per_quarter
              total_length_steps"
  let ?a = "primer_end_adjust exact primer_total_time qpm steps_per_quarter"
  have s: "0 < ?s" using assms(1,2) by (rule seconds_per_step_pos)
  have "1 \<le> ?g" using assms(3) by (simp add: generation_length_steps_def)
  then have "(1::real) \<le> of_int ?g" by linarith
  then have "1 * ?s \<le> of_int ?g * ?s" using s by (simp only: mult_le_cancel_right_pos)
  then have len: "?s \<le> generation_length_time exact primer_total_time qpm steps_per_quarter
                        total_length_steps + ?a"
    using primer_end_adjust_nonneg [of primer_total_time qpm steps_per_quarter]
    by (simp add: generation_length_time_def exact_simps)
  then have lt: "generation_start_time exact primer_total_time qpm steps_per_quarter
           < generation_end_time exact primer_total_time qpm steps_per_quarter
               total_length_steps"
    using s by (simp add: generation_end_time_def exact_simps)
  have "generation_section exact primer_total_time qpm steps_per_quarter total_length_steps
          = Inr (generation_start_time exact primer_total_time qpm steps_per_quarter,
                 generation_end_time exact primer_total_time qpm steps_per_quarter
                   total_length_steps)"
    using assms by (simp add: generation_section_exact generation_length_steps_def)
  with lt s len show ?thesis by simp
qed

theorem generation_window_nonempty_witness:
  "generation_start_time exact (8 / 5) 120 4 < generation_end_time exact (8 / 5) 120 4 14"
proof -
  have "primer_sequence_length_steps exact (8 / 5) 120 4 < 14"
    by (simp add: primer_steps_exact seconds_per_step_exact)
  from generation_window_nonempty [OF _ _ this] show ?thesis by simp
qed

section \<open>The two examples of the specification\<close>

text \<open>
  \<^bold>\<open>C6.\<close> With a primer of length 0 the primer has 0 steps, ends at 0, and no adjustment is
  applied: in exact arithmetic for every tempo and steps per quarter, in doubles
  whenever the step is a finite double other than zero. At 120 qpm, 4 steps per quarter
  and 16 steps in total, 16 steps are generated and the generation ends at
  \<open>16 * 0.125 = 2.0\<close>, in both arithmetics.
\<close>

theorem empty_primer_window:
  "primer_sequence_length_steps exact 0 qpm steps_per_quarter = 0
   \<and> primer_end_time exact 0 qpm steps_per_quarter = 0
   \<and> primer_end_adjust exact 0 qpm steps_per_quarter = 0
   \<and> generation_length_steps exact 0 120 4 16 = 16
   \<and> generation_end_time exact 0 120 4 16 = 16 * (1 / 8)
   \<and> generation_end_time exact 0 120 4 16 = 2
   \<and> generation_section exact 0 120 4 16 = Inr (0, 2)
   \<and> (seconds_per_step python float_qpm steps_per_quarter = Finite step \<and> step \<noteq> 0
        \<longrightarrow> primer_sequence_length_steps python (Finite 0) float_qpm steps_per_quarter = 0
          \<and> primer_end_time python (Finite 0) float_qpm steps_per_quarter = Finite 0
          \<and> primer_end_adjust python (Finite 0) float_qpm steps_per_quarter = Finite 0)
   \<and> generation_length_steps python (Finite 0) (Finite 120) 4 16 = 16
   \<and> generation_end_time python (Finite 0) (Finite 120) 4 16 = Finite 2
   \<and> generation_section python (Finite 0) (Finite 120) 4 16 = Inr (Finite 0, Finite 2)"
proof -
  have e: "primer_sequence_length_steps exact 0 qpm steps_per_quarter = 0
     \<and> primer_end_time exact 0 qpm steps_per_quarter = 0
     \<and> primer_end_adjust exact 0 qpm steps_per_quarter = 0"
    by (simp add: primer_sequence_length_steps_def primer_end_time_def primer_end_adjust_def
        primer_sequence_length_time_def primer_start_time_def exact_simps)
  have c: "generation_length_steps exact 0 120 4 16 = 16
     \<and> generation_end_time exact 0 120 4 16 = 16 * (1 / 8)
     \<and> generation_end_time exact 0 120 4 16 = 2
     \<and> generation_section exact 0 120 4 16 = Inr (0, 2)"
    by (simp add: generation_section_exact generation_end_time_total seconds_per_step_exact
        generation_length_steps_def primer_steps_exact generation_start_time_def
        primer_end_time_def primer_end_adjust_def primer_sequence_length_time_def
        primer_start_time_def exact_simps)
  have p: "seconds_per_step python float_qpm steps_per_quarter = Finite step
        \<Longrightarrow> primer_sequence_length_steps python (Finite 0) float_qpm steps_per_quarter = 0
          \<and> primer_end_time python (Finite 0) float_qpm steps_per_quarter = Finite 0
          \<and> primer_end_adjust python (Finite 0) float_qpm steps_per_quarter = Finite 0"
    by (simp add: primer_sequence_length_steps_def primer_end_time_def primer_end_adjust_def
        primer_sequence_length_time_def primer_start_time_def python_simps float_ops
        round_double_zero)
  from e c p show ?thesis
    by (simp add: generation_steps_empty generation_end_empty section_empty)
qed

theorem empty_primer_window_witness:
  "primer_sequence_length_steps python (Finite 0) (Finite 120) 4 = 0
   \<and> primer_end_time python (Finite 0) (Finite 120) 4 = Finite 0
   \<and> primer_end_adjust python (Finite 0) (Finite 120) 4 = Finite 0"
  using empty_primer_window [of 120 4 "Finite 120" "1 / 8"] by (simp add: step_worked)

text \<open>
  \<^bold>\<open>C7.\<close> The worked example: 120 qpm, 4 steps per quarter, a primer of 1.5 seconds and 32
  steps in total give a step of 0.125, 12 primer steps, a primer length of 1.5, an
  adjustment of \<open>1e-5\<close>, a primer end of 1.49999, 20 generated steps of 2.5 seconds, a
  generation start of 1.49999 and a generation end of exactly 4: in exact arithmetic,
  and in doubles with \<open>1e-5\<close> and 1.49999 the doubles of these literals.
\<close>

theorem worked_example:
  "seconds_per_step exact 120 4 = 1 / 8
   \<and> primer_sequence_length_steps exact (3 / 2) 120 4 = 12
   \<and> primer_sequence_length_time exact (3 / 2) 120 4 = 3 / 2
   \<and> primer_end_adjust exact (3 / 2) 120 4 = 1 / 100000
   \<and> primer_end_time exact (3 / 2) 120 4 = 149999 / 100000
   \<and> generation_length_steps exact (3 / 2) 120 4 32 = 20
   \<and> generation_length_time exact (3 / 2) 120 4 32 = 5 / 2
   \<and> generation_start_time exact (3 / 2) 120 4 = 149999 / 100000
   \<and> generation_end_time exact (3 / 2) 120 4 32 = 4
   \<and> generation_section exact (3 / 2) 120 4 32 = Inr (149999 / 100000, 4)
   \<and> seconds_per_step python (Finite 120) 4 = Finite (1 / 8)
   \<and> primer_sequence_length_steps python (Finite (3 / 2)) (Finite 120) 4 = 12
   \<and> primer_sequence_length_time python (Finite (3 / 2)) (Finite 120) 4 = Finite (3 / 2)
   \<and> primer_end_adjust python (Finite (3 / 2)) (Finite 120) 4 = round_double (1 / 100000)
   \<and> primer_end_time python (Finite (3 / 2)) (Finite 120) 4
       = round_double (149999 / 100000)
   \<and> generation_length_steps python (Finite (3 / 2)) (Finite 120) 4 32 = 20
   \<and> generation_length_time python (Finite (3 / 2)) (Finite 120) 4 32 = Finite (5 / 2)
   \<and> generation_start_time python (Finite (3 / 2)) (Finite 120) 4
       = round_double (149999 / 100000)
   \<and> generation_end_time python (Finite (3 / 2)) (Finite 120) 4 32 = Finite 4
   \<and> generation_section python (Finite (3 / 2)) (Finite 120) 4 32
       = Inr (round_double (149999 / 100000), Finite 4)"
proof -
  have "seconds_per_step exact 120 4 = 1 / 8
   \<and> primer_sequence_length_steps exact (3 / 2) 120 4 = 12
   \<and> primer_sequence_length_time exact (3 / 2) 120 4 = 3 / 2
   \<and> primer_end_adjust exact (3 / 2) 120 4 = 1 / 100000
   \<and> primer_end_time exact (3 / 2) 120 4 = 149999 / 100000
   \<and> generation_length_steps exact (3 / 2) 120 4 32 = 20
   \<and> generation_length_time exact (3 / 2) 120 4 32 = 5 / 2
   \<and> generation_start_time exact (3 / 2) 120 4 = 149999 / 100000
   \<and> generation_end_time exact (3 / 2) 120 4 32 = 4
   \<and> generation_section exact (3 / 2) 120 4 32 = Inr (149999 / 100000, 4)"
    by (simp add: generation_section_exact generation_end_time_def generation_start_time_def
        primer_end_time_def generation_length_time_def generation_length_steps_def
        primer_sequence_length_time_def primer_start_time_def primer_end_adjust_def
        primer_sequence_length_steps_def seconds_per_step_def exact_simps)
  then show ?thesis
    by (simp add: step_worked steps_worked primer_time_worked adjust_worked primer_end_worked
        generation_steps_worked generation_time_worked generation_start_worked
        generation_end_worked section_worked literal_adjust literal_primer_end)
qed

section \<open>Properties of \<open>generate\<close>\<close>

lemma generation_calls_append:
  "generation_calls (evs @ evs') = generation_calls evs @ generation_calls evs'"
  by (simp add: generation_calls_def)

lemma and_then_Inr:
  "and_then m f = (Inr y, evs)
     \<longleftrightarrow> (\<exists>x evs1 evs2. m = (Inr x, evs1) \<and> f x = (Inr y, evs2) \<and> evs = evs1 @ evs2)"
  by (auto simp: and_then_def split: prod.splits sum.splits)

lemma and_then_success:
  "m = (Inr x, evs) \<Longrightarrow> and_then m f = (fst (f x), evs @ snd (f x))"
  by (simp add: and_then_def split: prod.splits)

lemma load_generator_no_generation:
  "generation_calls (snd (load_generator lib bundle_name sequence_generator generator_id)) = []"
  by (simp add: load_generator_def and_then_def call_def returns_def raise_def
      generation_calls_def split: prod.splits sum.splits option.splits)

lemma load_primer_no_generation:
  "generation_calls (snd (load_primer lib primer_filename)) = []"
  by (simp add: load_primer_def call_def returns_def generation_calls_def
      split: option.splits)

lemma write_midi_no_generation:
  "generation_calls (snd (write_midi lib generator generator_id sequence)) = []"
  by (simp add: write_midi_def and_then_def call_def computed_def generation_calls_def
      split: prod.splits sum.splits)

lemma write_plot_no_generation:
  "generation_calls (snd (write_plot lib generator generator_id show_plot sequence)) = []"
  by (simp add: write_plot_def and_then_def call_def computed_def generation_calls_def
      split: prod.splits sum.splits)

lemma length_message_mentions_total:
  "sublist (str_int total_length_steps) (length_message total_length_steps primer_steps)"
  unfolding sublist_def length_message_def
  by (rule exI [of _ "''Total length in steps too small (''"]) simp

lemma length_message_mentions_primer:
  "sublist (str_int primer_steps) (length_message total_length_steps primer_steps)"
  unfolding sublist_def length_message_def
  by (rule exI [of _ "''Total length in steps too small ('' @ str_int total_length_steps
        @ ''), needs to be at least one bar bigger than primer (''"]) simp

lemma count_primer_steps_value:
  "count_primer_steps A primer_total_time qpm steps_per_quarter = Inr primer_steps
     \<Longrightarrow> primer_steps
           = primer_sequence_length_steps A primer_total_time qpm steps_per_quarter"
  by (simp add: count_primer_steps_def split: if_splits option.splits)

lemma generate_with_window:
  assumes "primer_qpm primer_sequence qpm = Inr resolved_qpm"
  shows "(\<forall>e. generation_section python (total_time primer_sequence) resolved_qpm
                 (steps_per_quarter_of generator) total_length_steps = Inl e
              \<longrightarrow> generate_with lib generator primer_sequence generator_id qpm
                    total_length_steps temperature beam_size branch_factor
                    steps_per_iteration show_plot = (Inl e, []))
         \<and> (\<forall>section. generation_section python (total_time primer_sequence) resolved_qpm
                 (steps_per_quarter_of generator) total_length_steps = Inr section
              \<longrightarrow> take 3 (snd (generate_with lib generator primer_sequence generator_id qpm
                                 total_length_steps temperature beam_size branch_factor
                                 steps_per_iteration show_plot))
                  = [PrintPrimerTime primer_start_time
                       (primer_end_time python (total_time primer_sequence) resolved_qpm
                          (steps_per_quarter_of generator)),
                     PrintGenerationTime (fst section) (snd section),
                     Generate primer_sequence
                       (make_options temperature beam_size branch_factor
                          steps_per_iteration section)])"
  by (simp add: generate_with_def and_then_def computed_def call_def assms
      split: prod.splits sum.splits)

lemma load_example_generator:
  "fst (load_generator (library_with primer) ''basic_rnn.mag'' example_generator_map
          ''basic_rnn'') = Inr example_generator"
  by (simp add: load_generator_def and_then_def call_def returns_def library_with_def
      example_generator_map_def example_generator_def)

lemma load_example_primer:
  "fst (load_primer (library_with primer) (Some ''Fur_Elisa_Beethoveen_Monophonic.mid''))
     = Inr primer"
  by (simp add: load_primer_def call_def library_with_def)

lemma example_steps_per_quarter: "steps_per_quarter_of example_generator = 4"
  by (simp add: steps_per_quarter_of_def example_generator_def)

text \<open>
  \<^bold>\<open>C5.\<close> The tempo: a primer that declares more than one tempo makes the call fail with the
  exception for multiple tempos, before anything else of the run from the tempo onwards
  happens. A primer that declares exactly one tempo gives that tempo's qpm, the run is
  the same whatever qpm the caller supplied, and the window is computed at that tempo:
  the run fails as the window computation at that tempo does, or prints that window and
  calls the generator with it. A primer that declares no tempo gives the caller's qpm,
  and the window is computed at the caller's qpm in the same way.
\<close>

theorem tempo_resolution:
  "(1 < length (tempos primer_sequence)
      \<longrightarrow> primer_qpm primer_sequence qpm = Inl (Exception ''No support for multiple tempos'')
        \<and> generate_with lib generator primer_sequence generator_id qpm total_length_steps
              temperature beam_size branch_factor steps_per_iteration show_plot
            = (Inl (Exception ''No support for multiple tempos''), []))
   \<and> (length (tempos primer_sequence) = 1
      \<longrightarrow> primer_qpm primer_sequence qpm = Inr (tempo_qpm (hd (tempos primer_sequence)))
        \<and> generate_with lib generator primer_sequence generator_id qpm total_length_steps
              temperature beam_size branch_factor steps_per_iteration show_plot
            = generate_with lib generator primer_sequence generator_id other_qpm
                total_length_steps temperature beam_size branch_factor steps_per_iteration
                show_plot
        \<and> (\<forall>e. generation_section python (total_time primer_sequence)
                   (tempo_qpm (hd (tempos primer_sequence)))
                   (steps_per_quarter_of generator) total_length_steps = Inl e
              \<longrightarrow> generate_with lib generator primer_sequence generator_id qpm
                    total_length_steps temperature beam_size branch_factor
                    steps_per_iteration show_plot = (Inl e, []))
        \<and> (\<forall>section. generation_section python (total_time primer_sequence)
                   (tempo_qpm (hd (tempos primer_sequence)))
                   (steps_per_quarter_of generator) total_length_steps = Inr section
              \<longrightarrow> take 3 (snd (generate_with lib generator primer_sequence generator_id qpm
                                 total_length_steps temperature beam_size branch_factor
                                 steps_per_iteration show_plot))
                  = [PrintPrimerTime primer_start_time
                       (primer_end_time python (total_time primer_sequence)
                          (tempo_qpm (hd (tempos primer_sequence)))
                          (steps_per_quarter_of generator)),
                     PrintGenerationTime (fst section) (snd section),
                     Generate primer_sequence
                       (make_options temperature beam_size branch_factor
                          steps_per_iteration section)]))
   \<and> (tempos primer_sequence = []
      \<longrightarrow> primer_qpm primer_sequence qpm = Inr qpm
        \<and> (\<forall>e. generation_section python (total_time primer_sequence) qpm
                   (steps_per_quarter_of generator) total_length_steps = Inl e
              \<longrightarrow> generate_with lib generator primer_sequence generator_id qpm
                    total_length_steps temperature beam_size branch_factor
                    steps_per_iteration show_plot = (Inl e, []))
        \<and> (\<forall>section. generation_section python (total_time primer_sequence) qpm
                   (steps_per_quarter_of generator) total_length_steps = Inr section
              \<longrightarrow> take 3 (snd (generate_with lib generator primer_sequence generator_id qpm
                                 total_length_steps temperature beam_size branch_factor
                                 steps_per_iteration show_plot))
                  = [PrintPrimerTime primer_start_time
                       (primer_end_time python (total_time primer_sequence) qpm
                          (steps_per_quarter_of generator)),
                     PrintGenerationTime (fst section) (snd section),
                     Generate primer_sequence
                       (make_options temperature beam_size branch_factor
                          steps_per_iteration section)]))"
proof (intro conjI impI)
  assume "1 < length (tempos primer_sequence)"
  then show "primer_qpm primer_sequence qpm
               = Inl (Exception ''No support for multiple tempos'')"
    by (auto simp add: primer_qpm_def)
  then show "generate_with lib generator primer_sequence generator_id qpm total_length_steps
               temperature beam_size branch_factor steps_per_iteration show_plot
             = (Inl (Exception ''No support for multiple tempos''), [])"
    by (simp add: generate_with_def and_then_def computed_def)
next
  assume one: "length (tempos primer_sequence) = 1"
  then have ne: "tempos primer_sequence \<noteq> []" by auto
  show q: "primer_qpm primer_sequence qpm = Inr (tempo_qpm (hd (tempos primer_sequence)))"
    using one ne by (simp add: primer_qpm_def)
  have "primer_qpm primer_sequence qpm = primer_qpm primer_sequence other_qpm"
    using one ne by (simp add: primer_qpm_def)
  then show "generate_with lib generator primer_sequence generator_id qpm total_length_steps
               temperature beam_size branch_factor steps_per_iteration show_plot
             = generate_with lib generator primer_sequence generator_id other_qpm
                 total_length_steps temperature beam_size branch_factor steps_per_iteration
                 show_plot"
    by (simp add: generate_with_def)
  from generate_with_window [OF q]
  show "\<forall>e. generation_section python (total_time primer_sequence)
                   (tempo_qpm (hd (tempos primer_sequence)))
                   (steps_per_quarter_of generator) total_length_steps = Inl e
              \<longrightarrow> generate_with lib generator primer_sequence generator_id qpm
                    total_length_steps temperature beam_size branch_factor
                    steps_per_iteration show_plot = (Inl e, [])"
    by blast
  from generate_with_window [OF q]
  show "\<forall>section. generation_section python (total_time primer_sequence)
                   (tempo_qpm (hd (tempos primer_sequence)))
                   (steps_per_quarter_of generator) total_length_steps = Inr section
              \<longrightarrow> take 3 (snd (generate_with lib generator primer_sequence generator_id qpm
                                 total_length_steps temperature beam_size branch_factor
                                 steps_per_iteration show_plot))
                  = [PrintPrimerTime primer_start_time
                       (primer_end_time python (total_time primer_sequence)
                          (tempo_qpm (hd (tempos primer_sequence)))
                          (steps_per_quarter_of generator)),
                     PrintGenerationTime (fst section) (snd section),
                     Generate primer_sequence
                       (make_options temperature beam_size branch_factor
                          steps_per_iteration section)]"
    by blast
next
  assume none: "tempos primer_sequence = []"
  then show q: "primer_qpm primer_sequence qpm = Inr qpm"
    by (simp add: primer_qpm_def)
  from generate_with_window [OF q]
  show "\<forall>e. generation_section python (total_time primer_sequence) qpm
                   (steps_per_quarter_of generator) total_length_steps = Inl e
              \<longrightarrow> generate_with lib generator primer_sequence generator_id qpm
                    total_length_steps temperature beam_size branch_factor
                    steps_per_iteration show_plot = (Inl e, [])"
    by blast
  from generate_with_window [OF q]
  show "\<forall>section. generation_section python (total_time primer_sequence) qpm
                   (steps_per_quarter_of generator) total_length_steps = Inr section
              \<longrightarrow> take 3 (snd (generate_with lib generator primer_sequence generator_id qpm
                                 total_length_steps temperature beam_size branch_factor
                                 steps_per_iteration show_plot))
                  = [PrintPrimerTime primer_start_time
                       (primer_end_time python (total_time primer_sequence) qpm
                          (steps_per_quarter_of generator)),
                     PrintGenerationTime (fst section) (snd section),
                     Generate primer_sequence
                       (make_options temperature beam_size branch_factor
                          steps_per_iteration section)]"
    by blast
qed

theorem tempo_resolution_witness:
  "primer_qpm example_primer (Finite 82) = Inr (Finite 120)
   \<and> take 3 (snd (generate_with example_library example_generator example_primer
                    ''basic_rnn'' (Finite 82) 32 (Finite 1) 1 1 1 True))
       = [PrintPrimerTime 0 (round_double (149999 / 100000)),
          PrintGenerationTime (round_double (149999 / 100000)) (Finite 4),
          Generate example_primer
            (make_options (Finite 1) 1 1 1 (round_double (149999 / 100000), Finite 4))]
   \<and> primer_qpm NoteSequence (Finite 120) = Inr (Finite 120)
   \<and> take 3 (snd (generate_with example_library example_generator NoteSequence
                    ''basic_rnn'' (Finite 120) 16 (Finite 1) 1 1 1 True))
       = [PrintPrimerTime 0 (Finite 0),
          PrintGenerationTime (Finite 0) (Finite 2),
          Generate NoteSequence (make_options (Finite 1) 1 1 1 (Finite 0, Finite 2))]
   \<and> generate_with example_library example_generator
        (example_primer\<lparr>tempos := [\<lparr>tempo_time = Finite 0, tempo_qpm = Finite 120\<rparr>,
                                   \<lparr>tempo_time = Finite 1, tempo_qpm = Finite 60\<rparr>]\<rparr>)
        ''basic_rnn'' (Finite 82) 32 (Finite 1) 1 1 1 True
       = (Inl (Exception ''No support for multiple tempos''), [])"
  using tempo_resolution [of example_primer "Finite 82" example_library example_generator
      "''basic_rnn''" 32 "Finite 1" 1 1 1 True "Finite 82"]
    tempo_resolution [of NoteSequence "Finite 120" example_library example_generator
      "''basic_rnn''" 16 "Finite 1" 1 1 1 True "Finite 120"]
    tempo_resolution [of "example_primer\<lparr>tempos := [\<lparr>tempo_time = Finite 0, tempo_qpm = Finite 120\<rparr>,
                                   \<lparr>tempo_time = Finite 1, tempo_qpm = Finite 60\<rparr>]\<rparr>"
      "Finite 82" example_library example_generator
      "''basic_rnn''" 32 "Finite 1" 1 1 1 True "Finite 82"]
  by (simp add: example_primer_def NoteSequence_def example_steps_per_quarter section_worked
      primer_end_worked section_empty primer_end_empty literal_primer_end
      primer_start_time_def)

text \<open>
  \<^bold>\<open>C3.\<close> When the generator and the primer are loaded, the tempo resolves and the primer's
  length in steps is computed, and the requested total length minus that count is zero
  or less, \<open>generate\<close> fails with the exception for a too small total length, whose
  message contains both the requested total and the count, and the generator's
  \<open>generate\<close> is not called.
\<close>

theorem too_short_total_length_fails:
  assumes "fst (load_generator lib bundle_name sequence_generator generator_id) = Inr generator"
    and "fst (load_primer lib primer_filename) = Inr primer_sequence"
    and "primer_qpm primer_sequence qpm = Inr resolved_qpm"
    and "count_primer_steps python (total_time primer_sequence) resolved_qpm
           (steps_per_quarter_of generator) = Inr primer_steps"
    and "total_length_steps - primer_steps \<le> 0"
  shows "fst (generate lib bundle_name sequence_generator generator_id primer_filename qpm
                total_length_steps temperature beam_size branch_factor steps_per_iteration
                show_plot)
           = Inl (Exception (length_message total_length_steps primer_steps))
         \<and> sublist (str_int total_length_steps)
             (length_message total_length_steps primer_steps)
         \<and> sublist (str_int primer_steps) (length_message total_length_steps primer_steps)
         \<and> generation_calls
             (snd (generate lib bundle_name sequence_generator generator_id primer_filename
                     qpm total_length_steps temperature beam_size branch_factor
                     steps_per_iteration show_plot)) = []"
proof -
  obtain evs1 where g:
    "load_generator lib bundle_name sequence_generator generator_id = (Inr generator, evs1)"
    using assms(1) by (cases "load_generator lib bundle_name sequence_generator generator_id") simp
  obtain evs2 where p: "load_primer lib primer_filename = (Inr primer_sequence, evs2)"
    using assms(2) by (cases "load_primer lib primer_filename") simp
  have sect: "generation_section python (total_time primer_sequence) resolved_qpm
                   (steps_per_quarter_of generator) total_length_steps
                 = Inl (Exception (length_message total_length_steps primer_steps))"
    using assms(5) count_primer_steps_value [OF assms(4)]
    by (simp add: generation_section_def assms(4) generation_length_steps_def)
  have rest: "generate_with lib generator primer_sequence generator_id qpm total_length_steps
                temperature beam_size branch_factor steps_per_iteration show_plot
              = (Inl (Exception (length_message total_length_steps primer_steps)), [])"
    by (simp add: generate_with_def and_then_def computed_def assms(3) sect)
  have run: "generate lib bundle_name sequence_generator generator_id primer_filename qpm
               total_length_steps temperature beam_size branch_factor steps_per_iteration
               show_plot
             = (Inl (Exception (length_message total_length_steps primer_steps)), evs1 @ evs2)"
    by (simp add: generate_def and_then_success [OF g] and_then_success [OF p] rest)
  have "generation_calls evs1 = []"
    using load_generator_no_generation [of lib bundle_name sequence_generator generator_id]
    by (simp add: g)
  moreover have "generation_calls evs2 = []"
    using load_primer_no_generation [of lib primer_filename] by (simp add: p)
  ultimately have "generation_calls (evs1 @ evs2) = []"
    by (simp add: generation_calls_append)
  with run show ?thesis
    by (simp add: length_message_mentions_total length_message_mentions_primer)
qed

theorem too_short_total_length_fails_witness:
  "fst (generate example_library ''basic_rnn.mag'' example_generator_map ''basic_rnn''
          (Some ''Fur_Elisa_Beethoveen_Monophonic.mid'') (Finite 120) 12 (Finite 1) 1 1 1
          True)
     = Inl (Exception
         ''Total length in steps too small (12), needs to be at least one bar bigger than primer (12)'')
   \<and> generation_calls
        (snd (generate example_library ''basic_rnn.mag'' example_generator_map ''basic_rnn''
                (Some ''Fur_Elisa_Beethoveen_Monophonic.mid'') (Finite 120) 12 (Finite 1)
                1 1 1 True)) = []
   \<and> fst (generate (library_with slow_primer) ''basic_rnn.mag'' example_generator_map
            ''basic_rnn'' (Some ''Fur_Elisa_Beethoveen_Monophonic.mid'') (Finite 120) 14
            (Finite 1) 1 1 1 True)
     = Inl (Exception
         ''Total length in steps too small (14), needs to be at least one bar bigger than primer (14)'')
   \<and> fst (generate (library_with slow_primer) ''basic_rnn.mag'' example_generator_map
            ''basic_rnn'' (Some ''Fur_Elisa_Beethoveen_Monophonic.mid'') (Finite 120) 13
            (Finite 1) 1 1 1 True)
     = Inl (Exception
         ''Total length in steps too small (13), needs to be at least one bar bigger than primer (14)'')"
proof -
  have q: "primer_qpm example_primer (Finite 120) = Inr (Finite 120)"
    by (simp add: primer_qpm_def example_primer_def)
  have c: "count_primer_steps python (total_time example_primer) (Finite 120)
             (steps_per_quarter_of example_generator) = Inr 12"
    by (simp add: example_primer_def example_steps_per_quarter count_worked)
  have q': "primer_qpm slow_primer (Finite 120) = Inr (Finite 52)"
    by (simp add: primer_qpm_def slow_primer_def)
  have c': "count_primer_steps python (total_time slow_primer) (Finite 52)
             (steps_per_quarter_of example_generator) = Inr 14"
    by (simp add: slow_primer_def example_steps_per_quarter count_slow)
  have msg: "length_message 12 12
     = ''Total length in steps too small (12), needs to be at least one bar bigger than primer (12)''"
    "length_message 14 14
     = ''Total length in steps too small (14), needs to be at least one bar bigger than primer (14)''"
    "length_message 13 14
     = ''Total length in steps too small (13), needs to be at least one bar bigger than primer (14)''"
    by (simp_all add: length_message_def str_int_def str_nat.simps)
  from too_short_total_length_fails
         [OF load_example_generator load_example_primer q c, of 12 "Finite 1" 1 1 1 True]
       too_short_total_length_fails
         [OF load_example_generator load_example_primer q' c', of 14 "Finite 1" 1 1 1 True]
       too_short_total_length_fails
         [OF load_example_generator load_example_primer q' c', of 13 "Finite 1" 1 1 1 True]
  show ?thesis by (simp add: msg example_library_def)
qed

text \<open>
  \<^bold>\<open>C8.\<close> Whenever \<open>generate\<close> returns a sequence, the generator's \<open>generate\<close> was called
  exactly once, on the loaded primer, and the sequence returned to the caller is the one
  that call produced; writing the MIDI file and the plot does not change it.
\<close>

theorem returns_generated_sequence:
  assumes "generate lib bundle_name sequence_generator generator_id primer_filename qpm
             total_length_steps temperature beam_size branch_factor steps_per_iteration
             show_plot = (Inr sequence, evs)"
  shows "\<exists>generator primer_sequence options.
           fst (load_generator lib bundle_name sequence_generator generator_id) = Inr generator
           \<and> fst (load_primer lib primer_filename) = Inr primer_sequence
           \<and> generate_sequence generator primer_sequence options = Inr sequence
           \<and> generation_calls evs = [Generate primer_sequence options]"
proof -
  from assms obtain generator evs1 primer_sequence evs2 evs3
    where g: "load_generator lib bundle_name sequence_generator generator_id
                = (Inr generator, evs1)"
      and p: "load_primer lib primer_filename = (Inr primer_sequence, evs2)"
      and w: "generate_with lib generator primer_sequence generator_id qpm total_length_steps
                temperature beam_size branch_factor steps_per_iteration show_plot
              = (Inr sequence, evs3)"
      and evs: "evs = evs1 @ evs2 @ evs3"
    unfolding generate_def and_then_Inr by blast
  from w obtain q sect evs4
    where s: "generation_section python (total_time primer_sequence) q
                (steps_per_quarter_of generator) total_length_steps = Inr sect"
      and c: "and_then (call (Generate primer_sequence
                 (make_options temperature beam_size branch_factor steps_per_iteration sect))
               (generate_sequence generator primer_sequence
                 (make_options temperature beam_size branch_factor steps_per_iteration sect)))
               (\<lambda>sequence.
                  and_then (write_midi lib generator generator_id sequence) (\<lambda>_.
                  and_then (write_plot lib generator generator_id show_plot sequence) (\<lambda>_.
                  returns sequence))) = (Inr sequence, evs4)"
      and evs3: "evs3 = [PrintPrimerTime primer_start_time
                   (primer_end_time python (total_time primer_sequence) q
                      (steps_per_quarter_of generator)),
                 PrintGenerationTime (fst sect) (snd sect)] @ evs4"
    unfolding generate_with_def and_then_Inr computed_def call_def by auto
  let ?options = "make_options temperature beam_size branch_factor steps_per_iteration sect"
  from c obtain produced evs5 evs6
    where r: "generate_sequence generator primer_sequence ?options = Inr produced"
      and m: "write_midi lib generator generator_id produced = (Inr (), evs5)"
      and pl: "write_plot lib generator generator_id show_plot produced = (Inr (), evs6)"
      and same: "produced = sequence"
      and evs4: "evs4 = [Generate primer_sequence ?options] @ evs5 @ evs6"
    unfolding and_then_Inr call_def returns_def by auto
  have "generation_calls evs1 = []"
    using load_generator_no_generation [of lib bundle_name sequence_generator generator_id]
    by (simp add: g)
  moreover have "generation_calls evs2 = []"
    using load_primer_no_generation [of lib primer_filename] by (simp add: p)
  moreover have "generation_calls evs5 = []"
    using write_midi_no_generation [of lib generator generator_id produced] by (simp add: m)
  moreover have "generation_calls evs6 = []"
    using write_plot_no_generation [of lib generator generator_id show_plot produced]
    by (simp add: pl)
  ultimately have "generation_calls evs = [Generate primer_sequence ?options]"
    by (simp add: evs evs3 evs4 generation_calls_append) (simp add: generation_calls_def)
  with g p r same show ?thesis by auto
qed

theorem returns_generated_sequence_witness:
  "\<exists>generator primer_sequence options.
     fst (load_generator example_library ''basic_rnn.mag'' example_generator_map ''basic_rnn'')
       = Inr generator
     \<and> fst (load_primer example_library (Some ''Fur_Elisa_Beethoveen_Monophonic.mid''))
         = Inr primer_sequence
     \<and> generate_sequence generator primer_sequence options = Inr example_sequence
     \<and> generation_calls
          (snd (generate example_library ''basic_rnn.mag'' example_generator_map ''basic_rnn''
                  (Some ''Fur_Elisa_Beethoveen_Monophonic.mid'') (Finite 120) 32
                  (round_double (9 / 10)) 1 1 1 True))
         = [Generate primer_sequence options]"
proof -
  have "fst (generate example_library ''basic_rnn.mag'' example_generator_map ''basic_rnn''
               (Some ''Fur_Elisa_Beethoveen_Monophonic.mid'') (Finite 120) 32
               (round_double (9 / 10)) 1 1 1 True)
          = Inr example_sequence"
    by (simp add: generate_def generate_with_def load_generator_def load_primer_def
        write_midi_def write_plot_def and_then_def call_def computed_def returns_def
        steps_per_quarter_of_def primer_qpm_def generator_name_def example_library_def
        library_with_def example_generator_def example_generator_map_def example_primer_def
        section_worked)
  then have "generate example_library ''basic_rnn.mag'' example_generator_map ''basic_rnn''
               (Some ''Fur_Elisa_Beethoveen_Monophonic.mid'') (Finite 120) 32
               (round_double (9 / 10)) 1 1 1 True
             = (Inr example_sequence,
                snd (generate example_library ''basic_rnn.mag'' example_generator_map
                       ''basic_rnn'' (Some ''Fur_Elisa_Beethoveen_Monophonic.mid'')
                       (Finite 120) 32 (round_double (9 / 10)) 1 1 1 True))"
    by (simp add: prod_eq_iff)
  then show ?thesis by (rule returns_generated_sequence)
qed

end
